theory Spec2Isabelle
  imports Complex_Main "HOL-Library.Multiset"
begin

section \<open>Python values, exceptions and the world outside the program\<close>

text \<open>
  The program is \<^verbatim>\<open>predict_with_rf.py\<close>: two prediction tools and an interactive
  \<^verbatim>\<open>main\<close>. Everything it does goes through libraries (\<^verbatim>\<open>os\<close>, \<^verbatim>\<open>joblib\<close>,
  \<^verbatim>\<open>pandas\<close>, the fitted scikit-learn objects, \<^verbatim>\<open>input\<close>, \<^verbatim>\<open>float\<close>, \<^verbatim>\<open>print\<close>).
  The model keeps the control flow of the source and makes each library call explicit.
  The decorator \<^verbatim>\<open>@mcp.tool\<close> registers a predictor as a tool; the model takes the
  decorated name to be the function itself, as \<^verbatim>\<open>main\<close> calls it.

  A Python \<^verbatim>\<open>str\<close> is modelled by its UTF-8 encoding, a \<^typ>\<open>string\<close>. The program only
  concatenates strings and compares them for equality, and UTF-8 is injective and
  compatible with concatenation. The Chinese literals of the source are written as
  byte lists, with their code points in the comment above each.

  Python values that the program only passes on (the six inputs, the scaled array, the
  prediction) are values of a type parameter \<open>'v\<close>.
\<close>

text \<open>
  Exceptions. Every value of \<open>pyexc\<close> is an instance of Python's \<^verbatim>\<open>Exception\<close>;
  \<open>exc_cls\<close> is the most specific class listed here and \<open>exc_str\<close> is \<^verbatim>\<open>str(e)\<close>.
  \<open>ValueError\<close> stands for that class and its subclasses, \<open>OtherError n\<close> for any other
  subclass of \<^verbatim>\<open>Exception\<close> named \<open>n\<close> that is not a \<^verbatim>\<open>ValueError\<close>.
\<close>

datatype exc_class =
    ValueError
  | FileNotFoundError
  | KeyError
  | IndexError
  | AttributeError
  | EOFError
  | Exception
  | OtherError string

datatype pyexc = PyExc (exc_cls: exc_class) (exc_str: string)

text \<open>A pandas table: the column labels in order, and the rows, each a list of cells.\<close>

record 'v dataframe =
  columns :: "string list"
  rows :: "'v list list"

text \<open>
  What a column selection returns: a table, or, for a single label, that column as a
  \<^verbatim>\<open>Series\<close> with its name and its values.
\<close>

datatype 'v pandas =
    DataFrame "'v dataframe"
  | Series string "'v list"

text \<open>
  What \<^verbatim>\<open>joblib.load\<close> can return. \<open>NameList\<close> is a Python list of strings and
  \<open>Label\<close> a Python \<^verbatim>\<open>str\<close>. \<open>Estimator c t p\<close> is any other object, of the class
  named \<open>c\<close>, such as a fitted scikit-learn scaler or model: \<open>t\<close> is its method
  \<^verbatim>\<open>transform\<close> and \<open>p\<close> its method \<^verbatim>\<open>predict\<close>, \<open>None\<close> when the object has no
  such method. The output of \<^verbatim>\<open>predict\<close> is a one-dimensional array, modelled as the
  list of its elements.
\<close>

datatype 'v artifact =
    NameList "string list"
  | Label string
  | Estimator string "('v pandas \<Rightarrow> pyexc + 'v) option" "('v \<Rightarrow> pyexc + 'v list) option"

text \<open>
  Library behaviour that the source does not fix is a parameter:
  \<^item> \<open>float_str s\<close> is \<^verbatim>\<open>float(s)\<close> on a string: the number, or the text of the
    \<^verbatim>\<open>ValueError\<close> it raises;
  \<^item> \<open>format_2f v\<close> is \<^verbatim>\<open>format(v, ".2f")\<close>, which raises for a value without that
    format;
  \<^item> \<open>key_error_str cols key\<close> is the text of the \<^verbatim>\<open>KeyError\<close> that pandas raises
    when \<open>key\<close> does not select columns of a table with columns \<open>cols\<close>.
\<close>

record 'v pylib =
  float_str :: "string \<Rightarrow> string + 'v"
  format_2f :: "'v \<Rightarrow> pyexc + string"
  key_error_str :: "string list \<Rightarrow> 'v artifact \<Rightarrow> string"

text \<open>
  The file system as the program sees it: \<open>present p\<close> is \<^verbatim>\<open>os.path.exists(p)\<close> and
  \<open>unpickle p\<close> is the outcome of \<^verbatim>\<open>joblib.load(p)\<close>. \<open>isdir p\<close> is
  \<^verbatim>\<open>os.path.isdir(p)\<close>, which the program never asks for: it tells a directory from a
  regular file of the same name. The program never writes.
\<close>

record 'v filesystem =
  present :: "string \<Rightarrow> bool"
  isdir :: "string \<Rightarrow> bool"
  unpickle :: "string \<Rightarrow> pyexc + 'v artifact"

text \<open>
  The state that changes: the lines still to be read from the console, and the trace of
  every call the program has made to the outside, in order. \<open>Print s\<close> is a call of
  \<^verbatim>\<open>print\<close> with the text \<open>s\<close>, \<open>Input p\<close> a call of \<^verbatim>\<open>input\<close> with the prompt \<open>p\<close>,
  \<open>Transform\<close> and \<open>Predict\<close> a call of that method of a loaded object.
\<close>

datatype event =
    PathExists string
  | JoblibLoad string
  | Transform
  | Predict
  | Input string
  | Print string

record world =
  stdin :: "string list"
  trace :: "event list"

section \<open>Statements that may raise and that act on the world\<close>

type_synonym 'a io = "world \<Rightarrow> (pyexc + 'a) \<times> world"

definition io_return :: "'a \<Rightarrow> 'a io" where
  "io_return x = (\<lambda>w. (Inr x, w))"

definition io_raise :: "pyexc \<Rightarrow> 'a io" where
  "io_raise e = (\<lambda>w. (Inl e, w))"

definition io_lift :: "pyexc + 'a \<Rightarrow> 'a io" where
  "io_lift r = (\<lambda>w. (r, w))"

definition io_bind :: "'a io \<Rightarrow> ('a \<Rightarrow> 'b io) \<Rightarrow> 'b io" where
  "io_bind m f = (\<lambda>w. case m w of (Inl e, w') \<Rightarrow> (Inl e, w') | (Inr x, w') \<Rightarrow> f x w')"

text \<open>\<^verbatim>\<open>try: m except ... as e: h e\<close>, for a handler that matches every exception it is given.\<close>

definition io_try :: "'a io \<Rightarrow> (pyexc \<Rightarrow> 'a io) \<Rightarrow> 'a io" where
  "io_try m h = (\<lambda>w. case m w of (Inl e, w') \<Rightarrow> h e w' | (Inr x, w') \<Rightarrow> (Inr x, w'))"

definition log :: "event \<Rightarrow> unit io" where
  "log ev = (\<lambda>w. (Inr (), w\<lparr>trace := trace w @ [ev]\<rparr>))"

section \<open>The library calls\<close>

definition os_path_exists :: "'v filesystem \<Rightarrow> string \<Rightarrow> bool io" where
  "os_path_exists fs p = io_bind (log (PathExists p)) (\<lambda>_. io_return (present fs p))"

definition joblib_load :: "'v filesystem \<Rightarrow> string \<Rightarrow> 'v artifact io" where
  "joblib_load fs p = io_bind (log (JoblibLoad p)) (\<lambda>_. io_lift (unpickle fs p))"

text \<open>\<^verbatim>\<open>pd.DataFrame([d])\<close> for one dict \<open>d\<close>: its keys in insertion order, one row.\<close>

definition DataFrame_row :: "(string \<times> 'v) list \<Rightarrow> 'v dataframe" where
  "DataFrame_row d = \<lparr>columns = map fst d, rows = [map snd d]\<rparr>"

text \<open>
  \<^verbatim>\<open>df[key]\<close> on a table with distinct column labels. A list of labels selects those
  columns in the order of the list; a label that is not a column raises \<^verbatim>\<open>KeyError\<close>.
  A \<^verbatim>\<open>str\<close> that is a column label selects that column as a \<^verbatim>\<open>Series\<close>, and
  raises \<^verbatim>\<open>KeyError\<close> when it is not. Any other object is looked up as a label, is
  not a column, and raises \<^verbatim>\<open>KeyError\<close> as well.
\<close>

fun getitem :: "'v pylib \<Rightarrow> 'v dataframe \<Rightarrow> 'v artifact \<Rightarrow> pyexc + 'v pandas" where
  "getitem lib df (NameList names) =
     (if list_all (\<lambda>n. n \<in> set (columns df)) names
      then Inr (DataFrame \<lparr>columns = names,
                rows = map (\<lambda>r. map (\<lambda>n. the (map_of (zip (columns df) r) n)) names) (rows df)\<rparr>)
      else Inl (PyExc KeyError (key_error_str lib (columns df) (NameList names))))"
| "getitem lib df (Label l) =
     (if l \<in> set (columns df)
      then Inr (Series l (map (\<lambda>r. the (map_of (zip (columns df) r) l)) (rows df)))
      else Inl (PyExc KeyError (key_error_str lib (columns df) (Label l))))"
| "getitem lib df (Estimator c t p) =
     Inl (PyExc KeyError (key_error_str lib (columns df) (Estimator c t p)))"

text \<open>\<^verbatim>\<open>'c' object has no attribute 'a'\<close>, for the class name \<open>c\<close> and the attribute \<open>a\<close>.\<close>

definition has_no_attribute :: "string \<Rightarrow> string \<Rightarrow> string" where
  "has_no_attribute c a =
     [CHR 0x27] @ c @ [CHR 0x27] @ '' object has no attribute '' @ [CHR 0x27] @ a @ [CHR 0x27]"

text \<open>
  \<^verbatim>\<open>obj.transform(x)\<close> and \<^verbatim>\<open>obj.predict(x)\<close>. The method is called, and the call
  is in the trace, only when the object has it; otherwise the attribute lookup raises
  and nothing is called.
\<close>

fun transform :: "'v artifact \<Rightarrow> 'v pandas \<Rightarrow> 'v io" where
  "transform (Estimator c (Some t) p) x = io_bind (log Transform) (\<lambda>_. io_lift (t x))"
| "transform (Estimator c None p) x =
     io_raise (PyExc AttributeError (has_no_attribute c ''transform''))"
| "transform (NameList names) x =
     io_raise (PyExc AttributeError (has_no_attribute ''list'' ''transform''))"
| "transform (Label l) x =
     io_raise (PyExc AttributeError (has_no_attribute ''str'' ''transform''))"

fun predict :: "'v artifact \<Rightarrow> 'v \<Rightarrow> 'v list io" where
  "predict (Estimator c t (Some p)) x = io_bind (log Predict) (\<lambda>_. io_lift (p x))"
| "predict (Estimator c t None) x =
     io_raise (PyExc AttributeError (has_no_attribute c ''predict''))"
| "predict (NameList names) x =
     io_raise (PyExc AttributeError (has_no_attribute ''list'' ''predict''))"
| "predict (Label l) x =
     io_raise (PyExc AttributeError (has_no_attribute ''str'' ''predict''))"

text \<open>\<^verbatim>\<open>out[0]\<close> on the array that \<^verbatim>\<open>predict\<close> returned.\<close>

fun getitem0 :: "'v list \<Rightarrow> pyexc + 'v" where
  "getitem0 [] = Inl (PyExc IndexError ''index 0 is out of bounds for axis 0 with size 0'')"
| "getitem0 (x # xs) = Inr x"

text \<open>\<^verbatim>\<open>input(prompt)\<close>: the next line of the console, \<^verbatim>\<open>EOFError\<close> when there is none.\<close>

definition input :: "string \<Rightarrow> string io" where
  "input prompt = (\<lambda>w. case stdin w of
       [] \<Rightarrow> (Inl (PyExc EOFError ''EOF when reading a line''), w\<lparr>trace := trace w @ [Input prompt]\<rparr>)
     | l # ls \<Rightarrow> (Inr l, w\<lparr>stdin := ls, trace := trace w @ [Input prompt]\<rparr>))"

definition py_float :: "'v pylib \<Rightarrow> string \<Rightarrow> 'v io" where
  "py_float lib s = io_lift (case float_str lib s of
       Inl m \<Rightarrow> Inl (PyExc ValueError m)
     | Inr v \<Rightarrow> Inr v)"

definition print :: "string \<Rightarrow> unit io" where
  "print s = log (Print s)"

section \<open>The string literals of the source\<close>

text \<open>The six keys of \<^verbatim>\<open>input_data\<close>, which are also the prompts of \<^verbatim>\<open>main\<close>.\<close>

text \<open>Pre-release defect count: U+4E0A U+5E02 U+524D U+7F3A U+9677 U+6570\<close>

definition key_preDefectCount :: string where
  "key_preDefectCount =
     [CHR 0xE4, CHR 0xB8, CHR 0x8A, CHR 0xE5, CHR 0xB8, CHR 0x82, CHR 0xE5, CHR 0x89, CHR 0x8D,
      CHR 0xE7, CHR 0xBC, CHR 0xBA, CHR 0xE9, CHR 0x99, CHR 0xB7, CHR 0xE6, CHR 0x95, CHR 0xB0]"

text \<open>Pre-release closed defect count: U+4E0A U+5E02 U+524D U+5DF2 U+5173 U+95ED U+7F3A U+9677 U+6570\<close>

definition key_preClosedDefectCount :: string where
  "key_preClosedDefectCount =
     [CHR 0xE4, CHR 0xB8, CHR 0x8A, CHR 0xE5, CHR 0xB8, CHR 0x82, CHR 0xE5, CHR 0x89, CHR 0x8D,
      CHR 0xE5, CHR 0xB7, CHR 0xB2, CHR 0xE5, CHR 0x85, CHR 0xB3, CHR 0xE9, CHR 0x97, CHR 0xAD,
      CHR 0xE7, CHR 0xBC, CHR 0xBA, CHR 0xE9, CHR 0x99, CHR 0xB7, CHR 0xE6, CHR 0x95, CHR 0xB0]"

text \<open>Pre-release resolved defect count: U+4E0A U+5E02 U+524D U+5DF2 U+89E3 U+51B3 U+7F3A U+9677 U+6570\<close>

definition key_preResolvedDefectCount :: string where
  "key_preResolvedDefectCount =
     [CHR 0xE4, CHR 0xB8, CHR 0x8A, CHR 0xE5, CHR 0xB8, CHR 0x82, CHR 0xE5, CHR 0x89, CHR 0x8D,
      CHR 0xE5, CHR 0xB7, CHR 0xB2, CHR 0xE8, CHR 0xA7, CHR 0xA3, CHR 0xE5, CHR 0x86, CHR 0xB3,
      CHR 0xE7, CHR 0xBC, CHR 0xBA, CHR 0xE9, CHR 0x99, CHR 0xB7, CHR 0xE6, CHR 0x95, CHR 0xB0]"

text \<open>Pre-release trial defect count: U+4E0A U+5E02 U+524D U+8BD5 U+7528 U+7F3A U+9677 U+6570\<close>

definition key_preTrialDefectCount :: string where
  "key_preTrialDefectCount =
     [CHR 0xE4, CHR 0xB8, CHR 0x8A, CHR 0xE5, CHR 0xB8, CHR 0x82, CHR 0xE5, CHR 0x89, CHR 0x8D,
      CHR 0xE8, CHR 0xAF, CHR 0x95, CHR 0xE7, CHR 0x94, CHR 0xA8, CHR 0xE7, CHR 0xBC, CHR 0xBA,
      CHR 0xE9, CHR 0x99, CHR 0xB7, CHR 0xE6, CHR 0x95, CHR 0xB0]"

text \<open>Pre-release closed trial defect count: U+4E0A U+5E02 U+524D U+5DF2 U+5173 U+95ED U+8BD5 U+7528 U+7F3A U+9677 U+6570\<close>

definition key_preClosedTrialDefectCount :: string where
  "key_preClosedTrialDefectCount =
     [CHR 0xE4, CHR 0xB8, CHR 0x8A, CHR 0xE5, CHR 0xB8, CHR 0x82, CHR 0xE5, CHR 0x89, CHR 0x8D,
      CHR 0xE5, CHR 0xB7, CHR 0xB2, CHR 0xE5, CHR 0x85, CHR 0xB3, CHR 0xE9, CHR 0x97, CHR 0xAD,
      CHR 0xE8, CHR 0xAF, CHR 0x95, CHR 0xE7, CHR 0x94, CHR 0xA8, CHR 0xE7, CHR 0xBC, CHR 0xBA,
      CHR 0xE9, CHR 0x99, CHR 0xB7, CHR 0xE6, CHR 0x95, CHR 0xB0]"

text \<open>Pre-release resolved trial defect count: U+4E0A U+5E02 U+524D U+5DF2 U+89E3 U+51B3 U+8BD5 U+7528 U+7F3A U+9677 U+6570\<close>

definition key_preResolvedTrialDefectCount :: string where
  "key_preResolvedTrialDefectCount =
     [CHR 0xE4, CHR 0xB8, CHR 0x8A, CHR 0xE5, CHR 0xB8, CHR 0x82, CHR 0xE5, CHR 0x89, CHR 0x8D,
      CHR 0xE5, CHR 0xB7, CHR 0xB2, CHR 0xE8, CHR 0xA7, CHR 0xA3, CHR 0xE5, CHR 0x86, CHR 0xB3,
      CHR 0xE8, CHR 0xAF, CHR 0x95, CHR 0xE7, CHR 0x94, CHR 0xA8, CHR 0xE7, CHR 0xBC, CHR 0xBA,
      CHR 0xE9, CHR 0x99, CHR 0xB7, CHR 0xE6, CHR 0x95, CHR 0xB0]"

text \<open>The text before the directory name in the FileNotFoundError message (cannot find): U+627E U+4E0D U+5230\<close>

definition not_found_head :: string where
  "not_found_head =
     [CHR 0xE6, CHR 0x89, CHR 0xBE, CHR 0xE4, CHR 0xB8, CHR 0x8D, CHR 0xE5, CHR 0x88, CHR 0xB0]"

text \<open>The text after the directory name (directory, please run the training script first): U+76EE U+5F55 U+FF0C U+8BF7 U+5148 U+8FD0 U+884C U+8BAD U+7EC3 U+811A U+672C\<close>

definition not_found_tail :: string where
  "not_found_tail =
     [CHR 0xE7, CHR 0x9B, CHR 0xAE, CHR 0xE5, CHR 0xBD, CHR 0x95, CHR 0xEF, CHR 0xBC, CHR 0x8C,
      CHR 0xE8, CHR 0xAF, CHR 0xB7, CHR 0xE5, CHR 0x85, CHR 0x88, CHR 0xE8, CHR 0xBF, CHR 0x90,
      CHR 0xE8, CHR 0xA1, CHR 0x8C, CHR 0xE8, CHR 0xAE, CHR 0xAD, CHR 0xE7, CHR 0xBB, CHR 0x83,
      CHR 0xE8, CHR 0x84, CHR 0x9A, CHR 0xE6, CHR 0x9C, CHR 0xAC]"

text \<open>The prefix of the wrapped load error (error while loading the model), ending in colon and space: U+52A0 U+8F7D U+6A21 U+578B U+65F6 U+51FA U+9519 U+003A U+0020\<close>

definition load_error_prefix :: string where
  "load_error_prefix =
     [CHR 0xE5, CHR 0x8A, CHR 0xA0, CHR 0xE8, CHR 0xBD, CHR 0xBD, CHR 0xE6, CHR 0xA8, CHR 0xA1,
      CHR 0xE5, CHR 0x9E, CHR 0x8B, CHR 0xE6, CHR 0x97, CHR 0xB6, CHR 0xE5, CHR 0x87, CHR 0xBA,
      CHR 0xE9, CHR 0x94, CHR 0x99, CHR 0x3A, CHR 0x20]"

text \<open>The title line of main: U+004E U+0050 U+0053 U+0020 U+6253 U+5206 U+9884 U+6D4B U+5DE5 U+5177 U+0020 U+0028 U+0052 U+0061 U+006E U+0064 U+006F U+006D U+0020 U+0046 U+006F U+0072 U+0065 U+0073 U+0074 U+7248 U+0029\<close>

definition banner_title :: string where
  "banner_title =
     [CHR 0x4E, CHR 0x50, CHR 0x53, CHR 0x20, CHR 0xE6, CHR 0x89, CHR 0x93, CHR 0xE5, CHR 0x88,
      CHR 0x86, CHR 0xE9, CHR 0xA2, CHR 0x84, CHR 0xE6, CHR 0xB5, CHR 0x8B, CHR 0xE5, CHR 0xB7,
      CHR 0xA5, CHR 0xE5, CHR 0x85, CHR 0xB7, CHR 0x20, CHR 0x28, CHR 0x52, CHR 0x61, CHR 0x6E,
      CHR 0x64, CHR 0x6F, CHR 0x6D, CHR 0x20, CHR 0x46, CHR 0x6F, CHR 0x72, CHR 0x65, CHR 0x73,
      CHR 0x74, CHR 0xE7, CHR 0x89, CHR 0x88, CHR 0x29]"

text \<open>The line before the prompts (newline, please enter the defect figures, colon): U+000A U+8BF7 U+8F93 U+5165 U+7F3A U+9677 U+6307 U+6807 U+003A\<close>

definition ask_for_inputs :: string where
  "ask_for_inputs =
     [CHR 0x0A, CHR 0xE8, CHR 0xAF, CHR 0xB7, CHR 0xE8, CHR 0xBE, CHR 0x93, CHR 0xE5, CHR 0x85,
      CHR 0xA5, CHR 0xE7, CHR 0xBC, CHR 0xBA, CHR 0xE9, CHR 0x99, CHR 0xB7, CHR 0xE6, CHR 0x8C,
      CHR 0x87, CHR 0xE6, CHR 0xA0, CHR 0x87, CHR 0x3A]"

text \<open>The text before the formatted prediction: U+4F7F U+7528 U+0020 U+0052 U+0061 U+006E U+0064 U+006F U+006D U+0020 U+0046 U+006F U+0072 U+0065 U+0073 U+0074 U+0020 U+6A21 U+578B U+9884 U+6D4B U+7684 U+0020 U+004E U+0050 U+0053 U+0020 U+6253 U+5206 U+003A U+0020\<close>

definition result_prefix :: string where
  "result_prefix =
     [CHR 0xE4, CHR 0xBD, CHR 0xBF, CHR 0xE7, CHR 0x94, CHR 0xA8, CHR 0x20, CHR 0x52, CHR 0x61,
      CHR 0x6E, CHR 0x64, CHR 0x6F, CHR 0x6D, CHR 0x20, CHR 0x46, CHR 0x6F, CHR 0x72, CHR 0x65,
      CHR 0x73, CHR 0x74, CHR 0x20, CHR 0xE6, CHR 0xA8, CHR 0xA1, CHR 0xE5, CHR 0x9E, CHR 0x8B,
      CHR 0xE9, CHR 0xA2, CHR 0x84, CHR 0xE6, CHR 0xB5, CHR 0x8B, CHR 0xE7, CHR 0x9A, CHR 0x84,
      CHR 0x20, CHR 0x4E, CHR 0x50, CHR 0x53, CHR 0x20, CHR 0xE6, CHR 0x89, CHR 0x93, CHR 0xE5,
      CHR 0x88, CHR 0x86, CHR 0x3A, CHR 0x20]"

text \<open>The message of the ValueError handler (please enter a valid number): U+8BF7 U+8F93 U+5165 U+6709 U+6548 U+7684 U+6570 U+5B57\<close>

definition invalid_number_message :: string where
  "invalid_number_message =
     [CHR 0xE8, CHR 0xAF, CHR 0xB7, CHR 0xE8, CHR 0xBE, CHR 0x93, CHR 0xE5, CHR 0x85, CHR 0xA5,
      CHR 0xE6, CHR 0x9C, CHR 0x89, CHR 0xE6, CHR 0x95, CHR 0x88, CHR 0xE7, CHR 0x9A, CHR 0x84,
      CHR 0xE6, CHR 0x95, CHR 0xB0, CHR 0xE5, CHR 0xAD, CHR 0x97]"

text \<open>The prefix of the message of the Exception handler (error during prediction), ending in colon and space: U+9884 U+6D4B U+8FC7 U+7A0B U+4E2D U+51FA U+9519 U+003A U+0020\<close>

definition failure_prefix :: string where
  "failure_prefix =
     [CHR 0xE9, CHR 0xA2, CHR 0x84, CHR 0xE6, CHR 0xB5, CHR 0x8B, CHR 0xE8, CHR 0xBF, CHR 0x87,
      CHR 0xE7, CHR 0xA8, CHR 0x8B, CHR 0xE4, CHR 0xB8, CHR 0xAD, CHR 0xE5, CHR 0x87, CHR 0xBA,
      CHR 0xE9, CHR 0x94, CHR 0x99, CHR 0x3A, CHR 0x20]"

section \<open>The two predictors\<close>

text \<open>The dict \<^verbatim>\<open>input_data\<close>, in insertion order (lines 49-56 and 112-119).\<close>

definition input_data :: "'v \<Rightarrow> 'v \<Rightarrow> 'v \<Rightarrow> 'v \<Rightarrow> 'v \<Rightarrow> 'v \<Rightarrow> (string \<times> 'v) list" where
  "input_data preDefectCount preClosedDefectCount preResolvedDefectCount
       preTrialDefectCount preClosedTrialDefectCount preResolvedTrialDefectCount =
     [(key_preDefectCount, preDefectCount),
      (key_preClosedDefectCount, preClosedDefectCount),
      (key_preResolvedDefectCount, preResolvedDefectCount),
      (key_preTrialDefectCount, preTrialDefectCount),
      (key_preClosedTrialDefectCount, preClosedTrialDefectCount),
      (key_preResolvedTrialDefectCount, preResolvedTrialDefectCount)]"

text \<open>
  \<^verbatim>\<open>predict_nps_with_rf\<close> (lines 10-70). The handler of the \<^verbatim>\<open>try\<close> around the three
  loads is \<^verbatim>\<open>except Exception as e\<close>, which matches every \<open>pyexc\<close>.
\<close>

definition predict_nps_with_rf ::
  "'v pylib \<Rightarrow> 'v filesystem \<Rightarrow> 'v \<Rightarrow> 'v \<Rightarrow> 'v \<Rightarrow> 'v \<Rightarrow> 'v \<Rightarrow> 'v \<Rightarrow> 'v io" where
  "predict_nps_with_rf lib fs preDefectCount preClosedDefectCount preResolvedDefectCount
       preTrialDefectCount preClosedTrialDefectCount preResolvedTrialDefectCount =
     io_bind (os_path_exists fs ''models'') (\<lambda>found.
     if \<not> found
     then io_raise (PyExc FileNotFoundError (not_found_head @ ''models'' @ not_found_tail))
     else
     io_bind
       (io_try
         (io_bind (joblib_load fs ''models/feature_names.joblib'') (\<lambda>feature_names.
          io_bind (joblib_load fs ''models/scaler.joblib'') (\<lambda>scaler.
          io_bind (joblib_load fs ''models/random_forest.joblib'') (\<lambda>rf_model.
          io_return (feature_names, scaler, rf_model)))))
         (\<lambda>e. io_raise (PyExc Exception (load_error_prefix @ exc_str e))))
       (\<lambda>(feature_names, scaler, rf_model).
     io_bind (io_lift (getitem lib
         (DataFrame_row (input_data preDefectCount preClosedDefectCount preResolvedDefectCount
            preTrialDefectCount preClosedTrialDefectCount preResolvedTrialDefectCount))
         feature_names)) (\<lambda>df.
     io_bind (transform scaler df) (\<lambda>scaled_data.
     io_bind (predict rf_model scaled_data) (\<lambda>out.
     io_lift (getitem0 out))))))"

text \<open>\<^verbatim>\<open>predict_nps_with_skynet\<close> (lines 73-133).\<close>

definition predict_nps_with_skynet ::
  "'v pylib \<Rightarrow> 'v filesystem \<Rightarrow> 'v \<Rightarrow> 'v \<Rightarrow> 'v \<Rightarrow> 'v \<Rightarrow> 'v \<Rightarrow> 'v \<Rightarrow> 'v io" where
  "predict_nps_with_skynet lib fs preDefectCount preClosedDefectCount preResolvedDefectCount
       preTrialDefectCount preClosedTrialDefectCount preResolvedTrialDefectCount =
     io_bind (os_path_exists fs ''skynet_model'') (\<lambda>found.
     if \<not> found
     then io_raise (PyExc FileNotFoundError (not_found_head @ ''skynet_model'' @ not_found_tail))
     else
     io_bind
       (io_try
         (io_bind (joblib_load fs ''skynet_model/feature_names.joblib'') (\<lambda>feature_names.
          io_bind (joblib_load fs ''skynet_model/scaler.joblib'') (\<lambda>scaler.
          io_bind (joblib_load fs ''skynet_model/gradient_boosting.joblib'') (\<lambda>skynet_model.
          io_return (feature_names, scaler, skynet_model)))))
         (\<lambda>e. io_raise (PyExc Exception (load_error_prefix @ exc_str e))))
       (\<lambda>(feature_names, scaler, skynet_model).
     io_bind (io_lift (getitem lib
         (DataFrame_row (input_data preDefectCount preClosedDefectCount preResolvedDefectCount
            preTrialDefectCount preClosedTrialDefectCount preResolvedTrialDefectCount))
         feature_names)) (\<lambda>df.
     io_bind (transform scaler df) (\<lambda>scaled_data.
     io_bind (predict skynet_model scaled_data) (\<lambda>out.
     io_lift (getitem0 out))))))"

section \<open>The interactive entry point\<close>

text \<open>The body of the \<^verbatim>\<open>try\<close> of \<^verbatim>\<open>main\<close> (lines 144-164).\<close>

definition main_try_body :: "'v pylib \<Rightarrow> 'v filesystem \<Rightarrow> unit io" where
  "main_try_body lib fs =
     io_bind (print ask_for_inputs) (\<lambda>_.
     io_bind (io_bind (input (key_preDefectCount @ '': '')) (py_float lib)) (\<lambda>preDefectCount.
     io_bind (io_bind (input (key_preClosedDefectCount @ '': '')) (py_float lib)) (\<lambda>preClosedDefectCount.
     io_bind (io_bind (input (key_preResolvedDefectCount @ '': '')) (py_float lib)) (\<lambda>preResolvedDefectCount.
     io_bind (io_bind (input (key_preTrialDefectCount @ '': '')) (py_float lib)) (\<lambda>preTrialDefectCount.
     io_bind (io_bind (input (key_preClosedTrialDefectCount @ '': '')) (py_float lib)) (\<lambda>preClosedTrialDefectCount.
     io_bind (io_bind (input (key_preResolvedTrialDefectCount @ '': '')) (py_float lib)) (\<lambda>preResolvedTrialDefectCount.
     io_bind (predict_nps_with_rf lib fs preDefectCount preClosedDefectCount preResolvedDefectCount
                preTrialDefectCount preClosedTrialDefectCount preResolvedTrialDefectCount) (\<lambda>prediction.
     io_bind (print (CHR 0x0A # replicate 50 (CHR ''=''))) (\<lambda>_.
     io_bind (io_bind (io_lift (format_2f lib prediction)) (\<lambda>formatted. print (result_prefix @ formatted))) (\<lambda>_.
     print (replicate 50 (CHR ''=''))))))))))))"

text \<open>
  \<^verbatim>\<open>main\<close> (lines 136-169). The first handler is \<^verbatim>\<open>except ValueError\<close>, the second
  \<^verbatim>\<open>except Exception as e\<close>, which matches every other \<open>pyexc\<close>.
\<close>

definition main :: "'v pylib \<Rightarrow> 'v filesystem \<Rightarrow> unit io" where
  "main lib fs =
     io_bind (print (replicate 50 (CHR ''=''))) (\<lambda>_.
     io_bind (print banner_title) (\<lambda>_.
     io_bind (print (replicate 50 (CHR ''=''))) (\<lambda>_.
     io_try (main_try_body lib fs)
       (\<lambda>e. if exc_cls e = ValueError
            then print invalid_number_message
            else print (failure_prefix @ exc_str e)))))"

section \<open>The predictor of the specification\<close>

text \<open>
  The definitions of this section follow the words of the specification (sections 4.1
  to 4.3), not the source: one predictor, with the artifact directory and the file name
  of the model as parameters. The theorems below compare it with the two predictors of
  the program.
\<close>

text \<open>The six recognized feature names, in the order of the keys of \<open>input_data\<close>.\<close>

definition recognized_names :: "string list" where
  "recognized_names = [key_preDefectCount, key_preClosedDefectCount, key_preResolvedDefectCount,
     key_preTrialDefectCount, key_preClosedTrialDefectCount, key_preResolvedTrialDefectCount]"

text \<open>The six prompts of the interactive entry point: each name, a colon and a space.\<close>

definition prompts :: "string list" where
  "prompts = map (\<lambda>k. k @ '': '') recognized_names"

text \<open>The wrapped artifact-load error: its message ends with the text of the cause.\<close>

definition wrapped_load_error :: "pyexc \<Rightarrow> pyexc" where
  "wrapped_load_error e = PyExc Exception (load_error_prefix @ exc_str e)"

text \<open>
  Artifact Loader (section 4.1 of the specification), for a directory and the file name
  of its model.
\<close>

definition load_artifacts ::
  "'v filesystem \<Rightarrow> string \<Rightarrow> string \<Rightarrow> ('v artifact \<times> 'v artifact \<times> 'v artifact) io" where
  "load_artifacts fs dir model_file =
     io_bind (os_path_exists fs dir) (\<lambda>found.
     if \<not> found
     then io_raise (PyExc FileNotFoundError (not_found_head @ dir @ not_found_tail))
     else io_try
       (io_bind (joblib_load fs (dir @ ''/feature_names.joblib'')) (\<lambda>names.
        io_bind (joblib_load fs (dir @ ''/scaler.joblib'')) (\<lambda>scaler.
        io_bind (joblib_load fs (dir @ ''/'' @ model_file)) (\<lambda>model.
        io_return (names, scaler, model)))))
       (\<lambda>e. io_raise (wrapped_load_error e)))"

text \<open>Feature Assembler (section 4.2).\<close>

definition assemble_features ::
  "'v pylib \<Rightarrow> 'v \<Rightarrow> 'v \<Rightarrow> 'v \<Rightarrow> 'v \<Rightarrow> 'v \<Rightarrow> 'v \<Rightarrow> 'v artifact \<Rightarrow> pyexc + 'v pandas" where
  "assemble_features lib a b c d e f names =
     getitem lib (DataFrame_row (input_data a b c d e f)) names"

text \<open>Predictor (section 4.3): scale the row, predict, take the first element.\<close>

definition predict_row :: "'v artifact \<Rightarrow> 'v artifact \<Rightarrow> 'v pandas \<Rightarrow> 'v io" where
  "predict_row scaler model row =
     io_bind (transform scaler row) (\<lambda>scaled.
     io_bind (predict model scaled) (\<lambda>out.
     io_lift (getitem0 out)))"

text \<open>One predictor flavor: the three components in a row, for one directory and model file.\<close>

definition flavor_predictor ::
  "'v pylib \<Rightarrow> 'v filesystem \<Rightarrow> string \<Rightarrow> string \<Rightarrow>
     'v \<Rightarrow> 'v \<Rightarrow> 'v \<Rightarrow> 'v \<Rightarrow> 'v \<Rightarrow> 'v \<Rightarrow> 'v io" where
  "flavor_predictor lib fs dir model_file a b c d e f =
     io_bind (load_artifacts fs dir model_file) (\<lambda>(names, scaler, model).
     io_bind (io_lift (assemble_features lib a b c d e f names)) (\<lambda>row.
     predict_row scaler model row))"

section \<open>Vocabulary of the statements\<close>

text \<open>
  \<^verbatim>\<open>model.predict(scaler.transform(row))[0]\<close> as a value: the exception of the first
  call that raises, otherwise the first element of the output, unchanged.
\<close>

definition first_prediction ::
  "('v pandas \<Rightarrow> pyexc + 'v) \<Rightarrow> ('v \<Rightarrow> pyexc + 'v list) \<Rightarrow> 'v pandas \<Rightarrow> pyexc + 'v" where
  "first_prediction scaler_transform model_predict row =
     (case scaler_transform row of
        Inl err \<Rightarrow> Inl err
      | Inr scaled \<Rightarrow>
         (case model_predict scaled of
            Inl err \<Rightarrow> Inl err
          | Inr out \<Rightarrow> getitem0 out))"

text \<open>
  What it means for a run \<open>run\<close> from the world \<open>w\<close> to deserialize the three artifacts
  of a directory in the sequence feature names, scaler, model, after the check that the
  directory exists: the first failing load ends the run with the wrapped error and no
  later file is read; when all three succeed, exactly these three files are read, in
  this order, and none after them.
\<close>

definition loads_in_sequence ::
  "'v filesystem \<Rightarrow> string \<Rightarrow> string \<Rightarrow> 'v io \<Rightarrow> world \<Rightarrow> bool" where
  "loads_in_sequence fs dir model_file run w =
     (let N = dir @ ''/feature_names.joblib''; S = dir @ ''/scaler.joblib'';
          M = dir @ ''/'' @ model_file
      in
      (\<forall>e. unpickle fs N = Inl e \<longrightarrow>
         run w = (Inl (wrapped_load_error e),
                  w\<lparr>trace := trace w @ [PathExists dir, JoblibLoad N]\<rparr>)) \<and>
      (\<forall>x e. unpickle fs N = Inr x \<and> unpickle fs S = Inl e \<longrightarrow>
         run w = (Inl (wrapped_load_error e),
                  w\<lparr>trace := trace w @ [PathExists dir, JoblibLoad N, JoblibLoad S]\<rparr>)) \<and>
      (\<forall>x y e. unpickle fs N = Inr x \<and> unpickle fs S = Inr y \<and> unpickle fs M = Inl e \<longrightarrow>
         run w = (Inl (wrapped_load_error e),
                  w\<lparr>trace := trace w @ [PathExists dir, JoblibLoad N, JoblibLoad S, JoblibLoad M]\<rparr>)) \<and>
      (\<forall>x y z. unpickle fs N = Inr x \<and> unpickle fs S = Inr y \<and> unpickle fs M = Inr z \<longrightarrow>
         (\<exists>rest. trace (snd (run w)) =
                   trace w @ [PathExists dir, JoblibLoad N, JoblibLoad S, JoblibLoad M] @ rest
               \<and> (\<forall>p. JoblibLoad p \<notin> set rest))))"

text \<open>
  Two file systems agree on the artifact directory of one flavor: on whether it exists
  and on what each of its three files deserializes to.
\<close>

definition same_artifacts :: "string \<Rightarrow> string \<Rightarrow> 'v filesystem \<Rightarrow> 'v filesystem \<Rightarrow> bool" where
  "same_artifacts dir model_file fs1 fs2 =
     (present fs1 dir = present fs2 dir
      \<and> unpickle fs1 (dir @ ''/feature_names.joblib'') = unpickle fs2 (dir @ ''/feature_names.joblib'')
      \<and> unpickle fs1 (dir @ ''/scaler.joblib'') = unpickle fs2 (dir @ ''/scaler.joblib'')
      \<and> unpickle fs1 (dir @ ''/'' @ model_file) = unpickle fs2 (dir @ ''/'' @ model_file))"

text \<open>The world when \<^verbatim>\<open>main\<close> enters its \<^verbatim>\<open>try\<close>: the three banner lines are printed.\<close>

definition after_banner :: "world \<Rightarrow> world" where
  "after_banner w =
     w\<lparr>trace := trace w @ [Print (replicate 50 (CHR ''='')), Print banner_title,
                           Print (replicate 50 (CHR ''=''))]\<rparr>"

text \<open>
  The world when \<^verbatim>\<open>main\<close> calls the predictor: the banner and the request are printed,
  the six prompts were shown, and \<open>rest\<close> is what remains on the console.
\<close>

definition prompted :: "world \<Rightarrow> string list \<Rightarrow> world" where
  "prompted w rest =
     w\<lparr>stdin := rest,
       trace := trace w @ [Print (replicate 50 (CHR ''='')), Print banner_title,
                           Print (replicate 50 (CHR ''='')), Print ask_for_inputs]
                        @ map Input prompts\<rparr>"

text \<open>The line that the handlers of \<^verbatim>\<open>main\<close> print for an exception.\<close>

definition handler_message :: "pyexc \<Rightarrow> string" where
  "handler_message e =
     (if exc_cls e = ValueError then invalid_number_message else failure_prefix @ exc_str e)"

text \<open>The three statements of \<^verbatim>\<open>main\<close> after the call of the predictor (lines 162-164).\<close>

definition show_result :: "'v pylib \<Rightarrow> 'v \<Rightarrow> unit io" where
  "show_result lib prediction =
     io_bind (print (CHR 0x0A # replicate 50 (CHR ''=''))) (\<lambda>_.
     io_bind (io_bind (io_lift (format_2f lib prediction))
                (\<lambda>formatted. print (result_prefix @ formatted))) (\<lambda>_.
     print (replicate 50 (CHR ''=''))))"

text \<open>The position of the first console line that \<^verbatim>\<open>float\<close> rejects.\<close>

definition first_unparsable :: "'v pylib \<Rightarrow> string list \<Rightarrow> nat" where
  "first_unparsable lib lines = length (takeWhile (\<lambda>x. \<not> isl (float_str lib x)) lines)"

text \<open>Every event that the statement \<open>m\<close> adds to the trace satisfies \<open>P\<close>.\<close>

definition emits :: "(event \<Rightarrow> bool) \<Rightarrow> 'a io \<Rightarrow> bool" where
  "emits P m = (\<forall>w. \<exists>evs. trace (snd (m w)) = trace w @ evs \<and> list_all P evs)"

section \<open>An example environment\<close>

text \<open>
  A library, a file system and a console on which the program runs to the end. The
  example scaler reads the cells of the row as decimal digits, least significant first,
  so that its output shows the order of the columns; the example model divides by 100.
  The feature names are stored in an order that differs from the order of the keys of
  \<open>input_data\<close>.
\<close>

fun decimal :: "nat \<Rightarrow> string" where
  "decimal n = (if n < 10 then [''0123456789'' ! n]
                else decimal (n div 10) @ [''0123456789'' ! (n mod 10)])"

definition demo_float_str :: "string \<Rightarrow> string + real" where
  "demo_float_str s =
     (case map_of [(''0'', 0), (''1'', 1), (''2'', 2), (''3'', 3), (''4'', 4),
                   (''5'', 5), (''6'', 6), (''7'', 7), (''8'', 8), (''9'', 9)] s of
        Some v \<Rightarrow> Inr v
      | None \<Rightarrow> Inl (''could not convert string to float: '' @ s))"

definition demo_format_2f :: "real \<Rightarrow> pyexc + string" where
  "demo_format_2f v =
     (let cents = nat \<lfloor>\<bar>v\<bar> * 100 + 1 / 2\<rfloor>
      in Inr ((if v < 0 then ''-'' else []) @ decimal (cents div 100) @ ''.'' @
              [''0123456789'' ! (cents mod 100 div 10), ''0123456789'' ! (cents mod 10)]))"

definition demo_lib :: "real pylib" where
  "demo_lib = \<lparr>float_str = demo_float_str, format_2f = demo_format_2f,
               key_error_str = (\<lambda>cols key. ''not in index'')\<rparr>"

definition demo_names :: "string list" where
  "demo_names = [key_preTrialDefectCount, key_preDefectCount, key_preResolvedTrialDefectCount,
                 key_preClosedDefectCount, key_preClosedTrialDefectCount, key_preResolvedDefectCount]"

definition demo_transform :: "real pandas \<Rightarrow> pyexc + real" where
  "demo_transform x =
     (case x of
        DataFrame df \<Rightarrow> Inr (foldr (\<lambda>x acc. x + 10 * acc) (concat (rows df)) 0)
      | Series name cells \<Rightarrow> Inl (PyExc ValueError ''Expected 2D array, got 1D array instead''))"

definition demo_predict :: "real \<Rightarrow> pyexc + real list" where
  "demo_predict x = Inr [x / 100]"

definition demo_scaler :: "real artifact" where
  "demo_scaler = Estimator ''StandardScaler'' (Some demo_transform) None"

definition demo_model :: "real artifact" where
  "demo_model = Estimator ''DummyRegressor'' None (Some demo_predict)"

definition demo_fs :: "real filesystem" where
  "demo_fs =
     \<lparr>present = (\<lambda>p. p = ''models'' \<or> p = ''skynet_model''),
      isdir = (\<lambda>p. p = ''models'' \<or> p = ''skynet_model''),
      unpickle = (\<lambda>p.
        case map_of [(''models/feature_names.joblib'', NameList demo_names),
                     (''models/scaler.joblib'', demo_scaler),
                     (''models/random_forest.joblib'', demo_model),
                     (''skynet_model/feature_names.joblib'', NameList demo_names),
                     (''skynet_model/scaler.joblib'', demo_scaler),
                     (''skynet_model/gradient_boosting.joblib'', demo_model)] p of
          Some a \<Rightarrow> Inr a
        | None \<Rightarrow> Inl (PyExc FileNotFoundError (''No such file or directory: '' @ p)))\<rparr>"

definition demo_world :: world where
  "demo_world = \<lparr>stdin = [''1'', ''2'', ''3'', ''4'', ''5'', ''6''], trace = []\<rparr>"

text \<open>A file system without the two directories.\<close>

definition empty_fs :: "real filesystem" where
  "empty_fs =
     \<lparr>present = (\<lambda>p. False),
      isdir = (\<lambda>p. False),
      unpickle = (\<lambda>p. Inl (PyExc FileNotFoundError (''No such file or directory: '' @ p)))\<rparr>"


text \<open>The scaler file of the random-forest directory is corrupt.\<close>

definition rf_corrupt_fs :: "real filesystem" where
  "rf_corrupt_fs =
     demo_fs\<lparr>unpickle := (unpickle demo_fs)
       (''models/scaler.joblib'' := Inl (PyExc (OtherError ''UnpicklingError'') ''invalid load key''))\<rparr>"

text \<open>The model file of the gradient-boosting directory is truncated.\<close>

definition skynet_corrupt_fs :: "real filesystem" where
  "skynet_corrupt_fs =
     demo_fs\<lparr>unpickle := (unpickle demo_fs)
       (''skynet_model/gradient_boosting.joblib'' := Inl (PyExc EOFError ''Ran out of input''))\<rparr>"

text \<open>Both feature-name lists contain a name that is not a key of \<open>input_data\<close>.\<close>

definition misnamed_fs :: "real filesystem" where
  "misnamed_fs =
     demo_fs\<lparr>unpickle := (unpickle demo_fs)
       (''models/feature_names.joblib'' := Inr (NameList [key_preDefectCount, ''severity'']),
        ''skynet_model/feature_names.joblib'' := Inr (NameList [key_preDefectCount, ''severity'']))\<rparr>"

text \<open>The feature-name file was pickled with a protocol that the reader does not know.\<close>

definition protocol_mismatch_fs :: "real filesystem" where
  "protocol_mismatch_fs =
     demo_fs\<lparr>unpickle := (unpickle demo_fs)
       (''models/feature_names.joblib'' := Inl (PyExc ValueError ''unsupported pickle protocol: 5''))\<rparr>"

text \<open>The scaler was fitted on another number of features and rejects the row.\<close>

definition shape_error_transform :: "real pandas \<Rightarrow> pyexc + real" where
  "shape_error_transform x = Inl (PyExc ValueError ''X has 6 features, but 5 were expected'')"

definition shape_error_scaler :: "real artifact" where
  "shape_error_scaler = Estimator ''StandardScaler'' (Some shape_error_transform) None"

definition shape_error_fs :: "real filesystem" where
  "shape_error_fs =
     demo_fs\<lparr>unpickle := (unpickle demo_fs)
       (''models/scaler.joblib'' := Inr shape_error_scaler)\<rparr>"

section \<open>Auxiliary facts\<close>

declare decimal.simps [simp del]

declare getitem.simps [simp del]

lemmas io_defs = io_return_def io_raise_def io_lift_def io_bind_def io_try_def log_def
  os_path_exists_def joblib_load_def print_def

lemma io_bind_assoc: "io_bind (io_bind m f) g = io_bind m (\<lambda>x. io_bind (f x) g)"
  by (rule ext) (simp add: io_bind_def split: prod.splits sum.splits)

lemma io_bind_if: "io_bind (if c then m else n) g = (if c then io_bind m g else io_bind n g)"
  by simp

lemma io_bind_raise: "io_bind (io_raise e) g = io_raise e"
  by (rule ext) (simp add: io_bind_def io_raise_def)

lemma rf_refines:
  "predict_nps_with_rf lib fs a b c d e f =
   flavor_predictor lib fs ''models'' ''random_forest.joblib'' a b c d e f"
  by (simp add: predict_nps_with_rf_def flavor_predictor_def load_artifacts_def
      assemble_features_def predict_row_def wrapped_load_error_def
      io_bind_assoc [of "os_path_exists fs p" for p] io_bind_if io_bind_raise cong: if_cong)

lemma skynet_refines:
  "predict_nps_with_skynet lib fs a b c d e f =
   flavor_predictor lib fs ''skynet_model'' ''gradient_boosting.joblib'' a b c d e f"
  by (simp add: predict_nps_with_skynet_def flavor_predictor_def load_artifacts_def
      assemble_features_def predict_row_def wrapped_load_error_def
      io_bind_assoc [of "os_path_exists fs p" for p] io_bind_if io_bind_raise cong: if_cong)

lemma load_artifacts_result:
  "load_artifacts fs dir model_file w =
     (if \<not> present fs dir
      then (Inl (PyExc FileNotFoundError (not_found_head @ dir @ not_found_tail)),
            w\<lparr>trace := trace w @ [PathExists dir]\<rparr>)
      else case unpickle fs (dir @ ''/feature_names.joblib'') of
        Inl e \<Rightarrow> (Inl (wrapped_load_error e),
                  w\<lparr>trace := trace w @ [PathExists dir, JoblibLoad (dir @ ''/feature_names.joblib'')]\<rparr>)
      | Inr names \<Rightarrow>
       (case unpickle fs (dir @ ''/scaler.joblib'') of
        Inl e \<Rightarrow> (Inl (wrapped_load_error e),
                  w\<lparr>trace := trace w @ [PathExists dir, JoblibLoad (dir @ ''/feature_names.joblib''),
                                          JoblibLoad (dir @ ''/scaler.joblib'')]\<rparr>)
      | Inr scaler \<Rightarrow>
       (case unpickle fs (dir @ ''/'' @ model_file) of
        Inl e \<Rightarrow> (Inl (wrapped_load_error e),
                  w\<lparr>trace := trace w @ [PathExists dir, JoblibLoad (dir @ ''/feature_names.joblib''),
                                          JoblibLoad (dir @ ''/scaler.joblib''),
                                          JoblibLoad (dir @ ''/'' @ model_file)]\<rparr>)
      | Inr model \<Rightarrow> (Inr (names, scaler, model),
                  w\<lparr>trace := trace w @ [PathExists dir, JoblibLoad (dir @ ''/feature_names.joblib''),
                                          JoblibLoad (dir @ ''/scaler.joblib''),
                                          JoblibLoad (dir @ ''/'' @ model_file)]\<rparr>))))"
  by (simp add: load_artifacts_def io_defs split: sum.splits)

lemma transform_trace:
  "\<exists>rest. trace (snd (transform scaler x w)) = trace w @ rest \<and> set rest \<subseteq> {Transform}"
  by (cases "(scaler, x)" rule: transform.cases) (simp_all add: io_defs)

lemma predict_trace:
  "\<exists>rest. trace (snd (predict model y w)) = trace w @ rest \<and> set rest \<subseteq> {Predict}"
  by (cases "(model, y)" rule: predict.cases) (simp_all add: io_defs)

lemma predict_row_trace:
  "\<exists>rest. trace (snd (predict_row scaler model row w)) = trace w @ rest \<and> set rest \<subseteq> {Transform, Predict}"
proof -
  obtain r1 w1 where t: "transform scaler row w = (r1, w1)"
    by (cases "transform scaler row w")
  with transform_trace [of scaler row w]
  obtain e1 where e1: "trace w1 = trace w @ e1" "set e1 \<subseteq> {Transform}" by auto
  show ?thesis
  proof (cases r1)
    case (Inl err)
    with t e1 have "trace (snd (predict_row scaler model row w)) = trace w @ e1"
      by (simp add: predict_row_def io_bind_def)
    with e1(2) show ?thesis by blast
  next
    case (Inr y)
    obtain r2 w2 where p: "predict model y w1 = (r2, w2)"
      by (cases "predict model y w1")
    with predict_trace [of model y w1]
    obtain e2 where e2: "trace w2 = trace w1 @ e2" "set e2 \<subseteq> {Predict}" by auto
    have "snd (predict_row scaler model row w) = w2"
      using t p Inr by (cases r2) (simp_all add: predict_row_def io_bind_def io_lift_def)
    with e1 e2 have "trace (snd (predict_row scaler model row w)) = trace w @ (e1 @ e2)
        \<and> set (e1 @ e2) \<subseteq> {Transform, Predict}"
      by auto
    then show ?thesis by blast
  qed
qed

lemma flavor_loads_in_sequence:
  assumes "present fs dir"
  shows "loads_in_sequence fs dir model_file (flavor_predictor lib fs dir model_file a b c d e f) w"
proof -
  have ok: "\<exists>rest. trace (snd (flavor_predictor lib fs dir model_file a b c d e f w)) =
       trace w @ [PathExists dir, JoblibLoad (dir @ ''/feature_names.joblib''),
          JoblibLoad (dir @ ''/scaler.joblib''), JoblibLoad (dir @ ''/'' @ model_file)] @ rest
       \<and> (\<forall>p. JoblibLoad p \<notin> set rest)"
    if "unpickle fs (dir @ ''/feature_names.joblib'') = Inr x"
       "unpickle fs (dir @ ''/scaler.joblib'') = Inr y"
       "unpickle fs (dir @ ''/'' @ model_file) = Inr z" for x y z
  proof (cases "assemble_features lib a b c d e f x")
    case (Inl err)
    with that assms show ?thesis
      by (simp add: flavor_predictor_def io_bind_def io_lift_def load_artifacts_result)
  next
    case (Inr row)
    let ?w = "w\<lparr>trace := trace w @ [PathExists dir, JoblibLoad (dir @ ''/feature_names.joblib''),
          JoblibLoad (dir @ ''/scaler.joblib''), JoblibLoad (dir @ ''/'' @ model_file)]\<rparr>"
    obtain rest where "trace (snd (predict_row y z row ?w)) = trace ?w @ rest"
        "set rest \<subseteq> {Transform, Predict}"
      using predict_row_trace by blast
    with that assms Inr show ?thesis
      by (auto simp add: flavor_predictor_def io_bind_def io_lift_def load_artifacts_result)
  qed
  from assms ok show ?thesis
    unfolding loads_in_sequence_def Let_def
    by (simp add: flavor_predictor_def io_bind_def load_artifacts_result)
qed

lemma flavor_prediction:
  assumes "present fs dir"
    "unpickle fs (dir @ ''/feature_names.joblib'') = Inr names"
    "unpickle fs (dir @ ''/scaler.joblib'') = Inr (Estimator cs (Some t) p)"
    "unpickle fs (dir @ ''/'' @ model_file) = Inr (Estimator cm t' (Some p'))"
    "getitem lib (DataFrame_row (input_data a b c d e f)) names = Inr row"
  shows "fst (flavor_predictor lib fs dir model_file a b c d e f w) = first_prediction t p' row"
  using assms
  by (simp add: flavor_predictor_def io_bind_def io_lift_def log_def load_artifacts_result
      assemble_features_def predict_row_def first_prediction_def split: sum.splits)

lemmas key_defs = key_preDefectCount_def key_preClosedDefectCount_def key_preResolvedDefectCount_def
   key_preTrialDefectCount_def key_preClosedTrialDefectCount_def key_preResolvedTrialDefectCount_def

lemma keys_distinct: "distinct recognized_names"
  by (simp add: recognized_names_def key_defs)

lemma columns_input_data: "columns (DataFrame_row (input_data a b c d e f)) = recognized_names"
  by (simp add: DataFrame_row_def input_data_def recognized_names_def)

lemma getitem_unknown:
  assumes "n \<in> set names" "n \<notin> set recognized_names"
  shows "getitem lib (DataFrame_row (input_data a b c d e f)) (NameList names) =
     Inl (PyExc KeyError (key_error_str lib recognized_names (NameList names)))"
  using assms by (auto simp add: getitem.simps columns_input_data list_all_iff)

lemma flavor_unknown:
  assumes "n \<in> set names" "n \<notin> set recognized_names" "present fs dir"
    "unpickle fs (dir @ ''/feature_names.joblib'') = Inr (NameList names)"
    "unpickle fs (dir @ ''/scaler.joblib'') = Inr scaler"
    "unpickle fs (dir @ ''/'' @ model_file) = Inr model"
  shows "flavor_predictor lib fs dir model_file a b c d e f w =
     (Inl (PyExc KeyError (key_error_str lib recognized_names (NameList names))),
      w\<lparr>trace := trace w @ [PathExists dir, JoblibLoad (dir @ ''/feature_names.joblib''),
          JoblibLoad (dir @ ''/scaler.joblib''), JoblibLoad (dir @ ''/'' @ model_file)]\<rparr>)"
  using assms(3-) getitem_unknown [OF assms(1,2), of lib a b c d e f]
  by (simp add: flavor_predictor_def io_bind_def io_lift_def load_artifacts_result
      assemble_features_def)

lemma getitem_DataFrame_row:
  assumes "set names \<subseteq> fst ` set dict"
  shows "getitem lib (DataFrame_row dict) (NameList names) =
     Inr (DataFrame \<lparr>columns = names, rows = [map (\<lambda>n. the (map_of dict n)) names]\<rparr>)"
proof -
  have "list_all (\<lambda>n. n \<in> set (map fst dict)) names"
    using assms by (auto simp add: list_all_iff)
  then show ?thesis
    by (simp add: getitem.simps DataFrame_row_def zip_map_fst_snd)
qed

lemma lookup_keys:
  "map_of (input_data a b c d e f) key_preDefectCount = Some a"
  "map_of (input_data a b c d e f) key_preClosedDefectCount = Some b"
  "map_of (input_data a b c d e f) key_preResolvedDefectCount = Some c"
  "map_of (input_data a b c d e f) key_preTrialDefectCount = Some d"
  "map_of (input_data a b c d e f) key_preClosedTrialDefectCount = Some e"
  "map_of (input_data a b c d e f) key_preResolvedTrialDefectCount = Some f"
  by (simp_all add: input_data_def key_defs)

lemma getitem_permuted:
  assumes "set names \<subseteq> fst ` set dict" "distinct (map fst dict)" "mset dict' = mset dict"
  shows "getitem lib (DataFrame_row dict') (NameList names) = getitem lib (DataFrame_row dict) (NameList names)"
proof -
  have s: "set dict' = set dict" using assms(3) by (rule mset_eq_setD)
  have "mset (map fst dict') = mset (map fst dict)" using assms(3) by simp
  then have "distinct (map fst dict')" using assms(2) by (metis mset_eq_imp_distinct_iff)
  then have "map_of dict' = map_of dict" using assms(2) s by (simp add: map_of_inject_set)
  then show ?thesis using assms(1) s by (simp add: getitem_DataFrame_row)
qed

lemma flavor_independent:
  assumes "same_artifacts dir model_file fs1 fs2"
  shows "flavor_predictor lib fs1 dir model_file a b c d e f w = flavor_predictor lib fs2 dir model_file a b c d e f w"
proof -
  have "load_artifacts fs1 dir model_file w = load_artifacts fs2 dir model_file w"
    using assms by (simp add: same_artifacts_def load_artifacts_result cong: sum.case_cong)
  then show ?thesis
    by (simp add: flavor_predictor_def io_bind_def)
qed

lemma main_result:
  "main lib fs w =
     (case main_try_body lib fs (after_banner w) of
        (Inl e, w') \<Rightarrow> (Inr (), w'\<lparr>trace := trace w' @ [Print (handler_message e)]\<rparr>)
      | (Inr u, w') \<Rightarrow> (Inr (), w'))"
  by (simp add: main_def io_defs after_banner_def handler_message_def split: prod.splits sum.splits)

lemma read_float_result:
  "io_bind (io_bind (input p) (py_float lib)) k w =
     (case stdin w of
        [] \<Rightarrow> (Inl (PyExc EOFError ''EOF when reading a line''), w\<lparr>trace := trace w @ [Input p]\<rparr>)
      | l # ls \<Rightarrow>
         (case float_str lib l of
            Inl m \<Rightarrow> (Inl (PyExc ValueError m), w\<lparr>stdin := ls, trace := trace w @ [Input p]\<rparr>)
          | Inr v \<Rightarrow> k v (w\<lparr>stdin := ls, trace := trace w @ [Input p]\<rparr>)))"
  by (simp add: io_defs input_def py_float_def split: list.splits sum.splits)

lemma main_try_body_parsed:
  assumes "stdin w = x1 # x2 # x3 # x4 # x5 # x6 # rest"
    "float_str lib x1 = Inr v1" "float_str lib x2 = Inr v2" "float_str lib x3 = Inr v3"
    "float_str lib x4 = Inr v4" "float_str lib x5 = Inr v5" "float_str lib x6 = Inr v6"
  shows "main_try_body lib fs w =
     io_bind (predict_nps_with_rf lib fs v1 v2 v3 v4 v5 v6) (show_result lib)
       (w\<lparr>stdin := rest, trace := trace w @ Print ask_for_inputs # map Input prompts\<rparr>)"
  unfolding main_try_body_def show_result_def
  apply (subst io_bind_def)
  apply (simp add: print_def log_def read_float_result assms prompts_def recognized_names_def)
  done

lemma print_bind: "io_bind (print s) k w = k () (w\<lparr>trace := trace w @ [Print s]\<rparr>)"
  by (simp add: io_defs)

lemma first_bad_input:
  assumes "stdin w = ok @ bad # rest" "length ok < 6"
    "\<forall>x \<in> set ok. \<exists>v. float_str lib x = Inr v" "float_str lib bad = Inl m"
  shows "main_try_body lib fs w =
     (Inl (PyExc ValueError m),
      w\<lparr>stdin := rest, trace := trace w @ Print ask_for_inputs # map Input (take (Suc (length ok)) prompts)\<rparr>)"
proof -
  consider "length ok = 0" | "length ok = 1" | "length ok = 2" | "length ok = 3"
    | "length ok = 4" | "length ok = 5"
    using assms(2) by linarith
  then show ?thesis
  proof cases
    case 1
    with assms show ?thesis
      by (simp add: main_try_body_def print_bind read_float_result prompts_def recognized_names_def)
  next
    case 2
    then obtain x1 where ok: "ok = [x1]" by (auto simp add: length_Suc_conv)
    with assms(3) obtain v1 where "float_str lib x1 = Inr v1" by auto
    with assms ok show ?thesis
      by (simp add: main_try_body_def print_bind read_float_result prompts_def recognized_names_def)
  next
    case 3
    then obtain x1 x2 where ok: "ok = [x1, x2]"
      by (auto simp add: length_Suc_conv eval_nat_numeral)
    with assms(3) obtain v1 v2 where "float_str lib x1 = Inr v1" "float_str lib x2 = Inr v2" by auto
    with assms ok show ?thesis
      by (simp add: main_try_body_def print_bind read_float_result prompts_def recognized_names_def)
  next
    case 4
    then obtain x1 x2 x3 where ok: "ok = [x1, x2, x3]"
      by (auto simp add: length_Suc_conv eval_nat_numeral)
    with assms(3) obtain v1 v2 v3 where "float_str lib x1 = Inr v1" "float_str lib x2 = Inr v2"
       "float_str lib x3 = Inr v3" by auto
    with assms ok show ?thesis
      by (simp add: main_try_body_def print_bind read_float_result prompts_def recognized_names_def)
  next
    case 5
    then obtain x1 x2 x3 x4 where ok: "ok = [x1, x2, x3, x4]"
      by (auto simp add: length_Suc_conv eval_nat_numeral)
    with assms(3) obtain v1 v2 v3 v4 where "float_str lib x1 = Inr v1" "float_str lib x2 = Inr v2"
       "float_str lib x3 = Inr v3" "float_str lib x4 = Inr v4" by auto
    with assms ok show ?thesis
      by (simp add: main_try_body_def print_bind read_float_result prompts_def recognized_names_def)
  next
    case 6
    then obtain x1 x2 x3 x4 x5 where ok: "ok = [x1, x2, x3, x4, x5]"
      by (auto simp add: length_Suc_conv eval_nat_numeral)
    with assms(3) obtain v1 v2 v3 v4 v5 where "float_str lib x1 = Inr v1" "float_str lib x2 = Inr v2"
       "float_str lib x3 = Inr v3" "float_str lib x4 = Inr v4" "float_str lib x5 = Inr v5" by auto
    with assms ok show ?thesis
      by (simp add: main_try_body_def print_bind read_float_result prompts_def recognized_names_def)
  qed
qed

lemma emits_return: "emits P (io_return x)"
  by (simp add: emits_def io_return_def)

lemma emits_raise: "emits P (io_raise e)"
  by (simp add: emits_def io_raise_def)

lemma emits_lift: "emits P (io_lift r)"
  by (simp add: emits_def io_lift_def)

lemma emits_log: "P ev \<Longrightarrow> emits P (log ev)"
  by (simp add: emits_def log_def)

lemma emits_print: "P (Print s) \<Longrightarrow> emits P (print s)"
  by (simp add: print_def emits_log)

lemma emits_bind:
  assumes "emits P m" "\<And>x. emits P (f x)"
  shows "emits P (io_bind m f)"
  unfolding emits_def
proof
  fix w
  obtain r w1 where m: "m w = (r, w1)" by (cases "m w")
  from assms(1) m obtain evs1 where 1: "trace w1 = trace w @ evs1" "list_all P evs1"
    unfolding emits_def by (metis snd_conv)
  show "\<exists>evs. trace (snd (io_bind m f w)) = trace w @ evs \<and> list_all P evs"
  proof (cases r)
    case (Inl e)
    with m 1 show ?thesis by (simp add: io_bind_def)
  next
    case (Inr x)
    from assms(2) [of x] obtain evs2 where "trace (snd (f x w1)) = trace w1 @ evs2" "list_all P evs2"
      unfolding emits_def by blast
    with m 1 Inr have "trace (snd (io_bind m f w)) = trace w @ (evs1 @ evs2) \<and> list_all P (evs1 @ evs2)"
      by (simp add: io_bind_def)
    then show ?thesis by blast
  qed
qed

lemma emits_try:
  assumes "emits P m" "\<And>e. emits P (h e)"
  shows "emits P (io_try m h)"
  unfolding emits_def
proof
  fix w
  obtain r w1 where m: "m w = (r, w1)" by (cases "m w")
  from assms(1) m obtain evs1 where 1: "trace w1 = trace w @ evs1" "list_all P evs1"
    unfolding emits_def by (metis snd_conv)
  show "\<exists>evs. trace (snd (io_try m h w)) = trace w @ evs \<and> list_all P evs"
  proof (cases r)
    case (Inr x)
    with m 1 show ?thesis by (simp add: io_try_def)
  next
    case (Inl e)
    from assms(2) [of e] obtain evs2 where "trace (snd (h e w1)) = trace w1 @ evs2" "list_all P evs2"
      unfolding emits_def by blast
    with m 1 Inl have "trace (snd (io_try m h w)) = trace w @ (evs1 @ evs2) \<and> list_all P (evs1 @ evs2)"
      by (simp add: io_try_def)
    then show ?thesis by blast
  qed
qed

lemma emits_input: "P (Input p) \<Longrightarrow> emits P (input p)"
  by (simp add: emits_def input_def split: list.splits)

lemma emits_py_float: "emits P (py_float lib s)"
  by (simp add: py_float_def emits_lift)

lemma emits_transform: "P Transform \<Longrightarrow> emits P (transform s x)"
  by (cases "(s, x)" rule: transform.cases) (simp_all add: emits_bind emits_log emits_lift emits_raise)

lemma emits_predict: "P Predict \<Longrightarrow> emits P (predict m x)"
  by (cases "(m, x)" rule: predict.cases) (simp_all add: emits_bind emits_log emits_lift emits_raise)

lemma emits_flavor_predictor:
  assumes "\<And>p. P (PathExists p)" "\<And>p. P (JoblibLoad p)" "P Transform" "P Predict"
  shows "emits P (flavor_predictor lib fs dir model_file a b c d e f)"
  unfolding flavor_predictor_def load_artifacts_def predict_row_def os_path_exists_def joblib_load_def
  by (intro emits_bind emits_try emits_log emits_return emits_raise emits_lift
        emits_transform emits_predict assms)
     (auto intro!: emits_bind emits_try emits_log emits_return emits_raise emits_lift
        emits_transform emits_predict assms)

lemma rule_not_invalid: "replicate 50 (CHR ''='') \<noteq> invalid_number_message"
proof
  assume "replicate 50 (CHR ''='') = invalid_number_message"
  then have "length (replicate 50 (CHR ''='')) = length invalid_number_message" by simp
  then show False by (simp add: invalid_number_message_def)
qed

lemma emits_main_try_body:
  "emits (\<lambda>ev. ev \<noteq> Print invalid_number_message) (main_try_body lib fs)"
  unfolding main_try_body_def rf_refines
  by (intro emits_bind emits_print emits_input emits_py_float emits_flavor_predictor emits_lift)
     (simp_all add: rule_not_invalid, simp_all add: invalid_number_message_def ask_for_inputs_def result_prefix_def)

lemma main_parsed:
  assumes "stdin w = x1 # x2 # x3 # x4 # x5 # x6 # rest"
    "float_str lib x1 = Inr v1" "float_str lib x2 = Inr v2" "float_str lib x3 = Inr v3"
    "float_str lib x4 = Inr v4" "float_str lib x5 = Inr v5" "float_str lib x6 = Inr v6"
  shows "main_try_body lib fs (after_banner w) =
     io_bind (predict_nps_with_rf lib fs v1 v2 v3 v4 v5 v6) (show_result lib) (prompted w rest)"
proof -
  have "stdin (after_banner w) = x1 # x2 # x3 # x4 # x5 # x6 # rest"
    using assms(1) by (simp add: after_banner_def)
  from main_try_body_parsed [OF this assms(2-)] show ?thesis
    by (simp add: after_banner_def prompted_def)
qed

lemma show_result_result:
  "show_result lib y w =
     (case format_2f lib y of
        Inl e \<Rightarrow> (Inl e, w\<lparr>trace := trace w @ [Print (CHR 0x0A # replicate 50 (CHR ''=''))]\<rparr>)
      | Inr shown \<Rightarrow> (Inr (), w\<lparr>trace := trace w @ [Print (CHR 0x0A # replicate 50 (CHR ''='')),
           Print (result_prefix @ shown), Print (replicate 50 (CHR ''=''))]\<rparr>))"
  by (simp add: show_result_def io_defs split: sum.splits)

lemma failure_not_invalid: "failure_prefix @ s \<noteq> invalid_number_message"
  by (simp add: failure_prefix_def invalid_number_message_def)

lemma handler_message_invalid:
  "handler_message err = invalid_number_message \<longleftrightarrow> exc_cls err = ValueError"
  by (simp add: handler_message_def failure_not_invalid)

lemma banner_not_invalid: "banner_title \<noteq> invalid_number_message"
  by (simp add: banner_title_def invalid_number_message_def)

lemma invalid_printed_iff:
  "Print invalid_number_message \<in> set (drop (length (trace w)) (trace (snd (main lib fs w))))
     \<longleftrightarrow> (\<exists>err w'. main_try_body lib fs (after_banner w) = (Inl err, w') \<and> exc_cls err = ValueError)"
proof -
  obtain r w1 where body: "main_try_body lib fs (after_banner w) = (r, w1)"
    by (cases "main_try_body lib fs (after_banner w)")
  from emits_main_try_body [of lib fs] body
  obtain evs where evs: "trace w1 = trace (after_banner w) @ evs"
      "list_all (\<lambda>ev. ev \<noteq> Print invalid_number_message) evs"
    unfolding emits_def by (metis snd_conv)
  then have quiet: "Print invalid_number_message \<notin> set evs"
    by (auto simp add: list_all_iff)
  show ?thesis
  proof (cases r)
    case (Inr u)
    with body evs(1) quiet show ?thesis
      using rule_not_invalid banner_not_invalid
      by (simp add: main_result after_banner_def)
  next
    case (Inl err)
    with body evs(1) quiet show ?thesis
      using rule_not_invalid banner_not_invalid handler_message_invalid [of err]
      by (auto simp add: main_result after_banner_def)
  qed
qed

lemma flavor_transform_ValueError:
  assumes "present fs dir"
    "unpickle fs (dir @ ''/feature_names.joblib'') = Inr names"
    "unpickle fs (dir @ ''/scaler.joblib'') = Inr (Estimator cs (Some t) p)"
    "unpickle fs (dir @ ''/'' @ model_file) = Inr model"
    "getitem lib (DataFrame_row (input_data a b c d e f)) names = Inr row"
    "t row = Inl err"
  shows "flavor_predictor lib fs dir model_file a b c d e f w =
     (Inl err, w\<lparr>trace := trace w @ [PathExists dir, JoblibLoad (dir @ ''/feature_names.joblib''),
          JoblibLoad (dir @ ''/scaler.joblib''), JoblibLoad (dir @ ''/'' @ model_file), Transform]\<rparr>)"
  using assms
  by (simp add: flavor_predictor_def io_bind_def io_lift_def log_def load_artifacts_result
      assemble_features_def predict_row_def)

lemmas demo_defs = demo_lib_def demo_fs_def demo_world_def demo_names_def demo_float_str_def
  demo_transform_def demo_predict_def demo_scaler_def demo_model_def

lemmas program_defs = main_def main_try_body_def predict_nps_with_rf_def predict_nps_with_skynet_def
  io_defs input_def py_float_def DataFrame_row_def input_data_def getitem.simps key_defs

lemma demo_format_example: "demo_format_2f (352614 / 100) = Inr ''3526.14''"
  by (simp add: demo_format_2f_def decimal.simps [of 3526] decimal.simps [of 352]
      decimal.simps [of 35] decimal.simps [of 3])

text \<open>
  The column selection and the method calls at the keys and objects that are not lists
  or fitted estimators: a \<^verbatim>\<open>str\<close> that is a column label selects that column, and an
  object without the method raises before anything is called.
\<close>

lemma getitem_label_example:
  "getitem demo_lib (DataFrame_row (input_data 1 2 3 4 5 6)) (Label key_preClosedDefectCount) =
     Inr (Series key_preClosedDefectCount [2])"
  "getitem demo_lib (DataFrame_row (input_data 1 2 3 4 5 6)) (Label ''severity'') =
     Inl (PyExc KeyError ''not in index'')"
  by (simp_all add: getitem.simps DataFrame_row_def input_data_def key_defs demo_lib_def)

lemma missing_method_example:
  "transform demo_model x w =
     (Inl (PyExc AttributeError (has_no_attribute ''DummyRegressor'' ''transform'')), w)"
  "predict demo_scaler y w =
     (Inl (PyExc AttributeError (has_no_attribute ''StandardScaler'' ''predict'')), w)"
  "transform (NameList names) x w =
     (Inl (PyExc AttributeError (has_no_attribute ''list'' ''transform'')), w)"
  "transform (Label l) x w =
     (Inl (PyExc AttributeError (has_no_attribute ''str'' ''transform'')), w)"
  by (simp_all add: demo_model_def demo_scaler_def io_raise_def)

section \<open>The claims\<close>

text \<open>
  Claim C1. When the directory exists and the three loads give a list of feature names
  and two objects, the value that each predictor returns for six inputs is
  \<^verbatim>\<open>model.predict(scaler.transform(row))[0]\<close> for the assembled row \<open>row\<close>: the
  outcome of \<open>first_prediction\<close> on the scaler's \<^verbatim>\<open>transform\<close> and the model's
  \<^verbatim>\<open>predict\<close>, with nothing applied to the first element of the output.
\<close>

theorem prediction_is_first_model_output:
  "(present fs ''models''
     \<and> unpickle fs ''models/feature_names.joblib'' = Inr (NameList names)
     \<and> unpickle fs ''models/scaler.joblib'' = Inr (Estimator cs (Some t) p)
     \<and> unpickle fs ''models/random_forest.joblib'' = Inr (Estimator cm t' (Some p'))
     \<and> getitem lib (DataFrame_row (input_data a b c d e f)) (NameList names) = Inr row
    \<longrightarrow> fst (predict_nps_with_rf lib fs a b c d e f w) = first_prediction t p' row)
 \<and> (present fs ''skynet_model''
     \<and> unpickle fs ''skynet_model/feature_names.joblib'' = Inr (NameList names)
     \<and> unpickle fs ''skynet_model/scaler.joblib'' = Inr (Estimator cs (Some t) p)
     \<and> unpickle fs ''skynet_model/gradient_boosting.joblib'' = Inr (Estimator cm t' (Some p'))
     \<and> getitem lib (DataFrame_row (input_data a b c d e f)) (NameList names) = Inr row
    \<longrightarrow> fst (predict_nps_with_skynet lib fs a b c d e f w) = first_prediction t p' row)"
  using flavor_prediction [of fs "''models''" "NameList names" cs t p "''random_forest.joblib''" cm t' p' lib a b c d e f row w]
    flavor_prediction [of fs "''skynet_model''" "NameList names" cs t p "''gradient_boosting.joblib''" cm t' p' lib a b c d e f row w]
  by (simp add: rf_refines skynet_refines)

theorem prediction_is_first_model_output_witness:
  "present demo_fs ''models''
   \<and> unpickle demo_fs ''models/feature_names.joblib'' = Inr (NameList demo_names)
   \<and> unpickle demo_fs ''models/scaler.joblib'' = Inr demo_scaler
   \<and> unpickle demo_fs ''models/random_forest.joblib'' = Inr demo_model
   \<and> present demo_fs ''skynet_model''
   \<and> unpickle demo_fs ''skynet_model/feature_names.joblib'' = Inr (NameList demo_names)
   \<and> unpickle demo_fs ''skynet_model/scaler.joblib'' = Inr demo_scaler
   \<and> unpickle demo_fs ''skynet_model/gradient_boosting.joblib'' = Inr demo_model
   \<and> getitem demo_lib (DataFrame_row (input_data 1 2 3 4 5 6)) (NameList demo_names) =
        Inr (DataFrame \<lparr>columns = demo_names, rows = [[4, 1, 6, 2, 5, 3]]\<rparr>)
   \<and> fst (predict_nps_with_rf demo_lib demo_fs 1 2 3 4 5 6 demo_world) = Inr (352614 / 100)
   \<and> fst (predict_nps_with_skynet demo_lib demo_fs 1 2 3 4 5 6 demo_world) = Inr (352614 / 100)"
proof -
  have fs: "present demo_fs ''models''
   \<and> unpickle demo_fs ''models/feature_names.joblib'' = Inr (NameList demo_names)
   \<and> unpickle demo_fs ''models/scaler.joblib'' = Inr demo_scaler
   \<and> unpickle demo_fs ''models/random_forest.joblib'' = Inr demo_model
   \<and> present demo_fs ''skynet_model''
   \<and> unpickle demo_fs ''skynet_model/feature_names.joblib'' = Inr (NameList demo_names)
   \<and> unpickle demo_fs ''skynet_model/scaler.joblib'' = Inr demo_scaler
   \<and> unpickle demo_fs ''skynet_model/gradient_boosting.joblib'' = Inr demo_model"
    by (simp add: demo_fs_def)
  have row: "getitem demo_lib (DataFrame_row (input_data 1 2 3 4 5 6)) (NameList demo_names) =
        Inr (DataFrame \<lparr>columns = demo_names, rows = [[4, 1, 6, 2, 5, 3]]\<rparr>)"
    by (simp add: getitem.simps DataFrame_row_def input_data_def demo_names_def key_defs)
  have out: "first_prediction demo_transform demo_predict
        (DataFrame \<lparr>columns = demo_names, rows = [[4, 1, 6, 2, 5, 3]]\<rparr>) = Inr (352614 / 100)"
    by (simp add: first_prediction_def demo_transform_def demo_predict_def)
  from fs row out
    prediction_is_first_model_output [where fs = demo_fs and names = demo_names
      and cs = "''StandardScaler''" and t = demo_transform and p = None
      and cm = "''DummyRegressor''" and t' = None and p' = demo_predict
      and lib = demo_lib and a = 1 and b = 2 and c = 3 and d = 4 and e = 5 and f = 6
      and row = "DataFrame \<lparr>columns = demo_names, rows = [[4, 1, 6, 2, 5, 3]]\<rparr>" and w = demo_world]
  show ?thesis by (simp add: demo_scaler_def demo_model_def)
qed

text \<open>
  Claim C2. When every name of the feature-name list is one of the six recognized names,
  the assembled table has one row, its columns are the feature-name list in its order,
  and the cell under each name is the input bound to that name. The table is the same
  for every order in which the six named inputs are put into the dict.
\<close>

theorem feature_row_follows_name_list:
  "set names \<subseteq> set recognized_names \<longrightarrow>
    (\<exists>row. getitem lib (DataFrame_row (input_data a b c d e f)) (NameList names) =
             Inr (DataFrame \<lparr>columns = names, rows = [row]\<rparr>)
         \<and> length row = length names
         \<and> (\<forall>i < length names.
               (names ! i = key_preDefectCount \<longrightarrow> row ! i = a)
             \<and> (names ! i = key_preClosedDefectCount \<longrightarrow> row ! i = b)
             \<and> (names ! i = key_preResolvedDefectCount \<longrightarrow> row ! i = c)
             \<and> (names ! i = key_preTrialDefectCount \<longrightarrow> row ! i = d)
             \<and> (names ! i = key_preClosedTrialDefectCount \<longrightarrow> row ! i = e)
             \<and> (names ! i = key_preResolvedTrialDefectCount \<longrightarrow> row ! i = f)))
  \<and> (\<forall>supplied. mset supplied = mset (input_data a b c d e f) \<longrightarrow>
        getitem lib (DataFrame_row supplied) (NameList names) =
        getitem lib (DataFrame_row (input_data a b c d e f)) (NameList names))"
proof (intro impI conjI allI)
  assume sub: "set names \<subseteq> set recognized_names"
  have dom: "fst ` set (input_data a b c d e f) = set recognized_names"
    by (simp add: input_data_def recognized_names_def)
  have dist: "distinct (map fst (input_data a b c d e f))"
    using keys_distinct by (simp add: input_data_def recognized_names_def)
  let ?row = "map (\<lambda>n. the (map_of (input_data a b c d e f) n)) names"
  have "getitem lib (DataFrame_row (input_data a b c d e f)) (NameList names) =
             Inr (DataFrame \<lparr>columns = names, rows = [?row]\<rparr>)"
    using sub dom by (simp add: getitem_DataFrame_row)
  moreover have "length ?row = length names" by simp
  moreover have "\<forall>i < length names.
               (names ! i = key_preDefectCount \<longrightarrow> ?row ! i = a)
             \<and> (names ! i = key_preClosedDefectCount \<longrightarrow> ?row ! i = b)
             \<and> (names ! i = key_preResolvedDefectCount \<longrightarrow> ?row ! i = c)
             \<and> (names ! i = key_preTrialDefectCount \<longrightarrow> ?row ! i = d)
             \<and> (names ! i = key_preClosedTrialDefectCount \<longrightarrow> ?row ! i = e)
             \<and> (names ! i = key_preResolvedTrialDefectCount \<longrightarrow> ?row ! i = f)"
    by (simp add: lookup_keys)
  ultimately show "\<exists>row. getitem lib (DataFrame_row (input_data a b c d e f)) (NameList names) =
             Inr (DataFrame \<lparr>columns = names, rows = [row]\<rparr>)
         \<and> length row = length names
         \<and> (\<forall>i < length names.
               (names ! i = key_preDefectCount \<longrightarrow> row ! i = a)
             \<and> (names ! i = key_preClosedDefectCount \<longrightarrow> row ! i = b)
             \<and> (names ! i = key_preResolvedDefectCount \<longrightarrow> row ! i = c)
             \<and> (names ! i = key_preTrialDefectCount \<longrightarrow> row ! i = d)
             \<and> (names ! i = key_preClosedTrialDefectCount \<longrightarrow> row ! i = e)
             \<and> (names ! i = key_preResolvedTrialDefectCount \<longrightarrow> row ! i = f))"
    by blast
  fix supplied :: "(string \<times> 'a) list"
  assume "mset supplied = mset (input_data a b c d e f)"
  with sub dom dist show "getitem lib (DataFrame_row supplied) (NameList names) =
        getitem lib (DataFrame_row (input_data a b c d e f)) (NameList names)"
    by (simp add: getitem_permuted)
qed

theorem feature_row_follows_name_list_witness:
  "set demo_names \<subseteq> set recognized_names
   \<and> mset (rev (input_data (1::real) 2 3 4 5 6)) = mset (input_data 1 2 3 4 5 6)
   \<and> getitem demo_lib (DataFrame_row (rev (input_data 1 2 3 4 5 6))) (NameList demo_names) =
        Inr (DataFrame \<lparr>columns = demo_names, rows = [[4, 1, 6, 2, 5, 3]]\<rparr>)"
proof -
  have sub: "set demo_names \<subseteq> set recognized_names"
    by (simp add: demo_names_def recognized_names_def)
  have perm: "mset (rev (input_data (1::real) 2 3 4 5 6)) = mset (input_data 1 2 3 4 5 6)"
    by simp
  have row: "getitem demo_lib (DataFrame_row (input_data 1 2 3 4 5 6)) (NameList demo_names) =
        Inr (DataFrame \<lparr>columns = demo_names, rows = [[4, 1, 6, 2, 5, 3]]\<rparr>)"
    by (simp add: getitem.simps DataFrame_row_def input_data_def demo_names_def key_defs)
  from sub feature_row_follows_name_list [where names = demo_names and lib = demo_lib
      and a = 1 and b = 2 and c = 3 and d = 4 and e = 5 and f = 6]
  have "\<forall>supplied. mset supplied = mset (input_data (1::real) 2 3 4 5 6) \<longrightarrow>
        getitem demo_lib (DataFrame_row supplied) (NameList demo_names) =
        getitem demo_lib (DataFrame_row (input_data 1 2 3 4 5 6)) (NameList demo_names)"
    by blast
  with perm have "getitem demo_lib (DataFrame_row (rev (input_data 1 2 3 4 5 6))) (NameList demo_names) =
        getitem demo_lib (DataFrame_row (input_data 1 2 3 4 5 6)) (NameList demo_names)"
    by blast
  with sub perm row show ?thesis by simp
qed

text \<open>
  Claim C3. When the feature-name list contains a name that is not one of the six
  recognized names, the column selection raises \<^verbatim>\<open>KeyError\<close> and returns no table;
  each predictor, after loading its three artifacts, ends with that error, and neither
  \<^verbatim>\<open>transform\<close> nor \<^verbatim>\<open>predict\<close> is called.
\<close>

theorem unknown_feature_name_fails:
  "n \<in> set names \<and> n \<notin> set recognized_names \<longrightarrow>
     getitem lib (DataFrame_row (input_data a b c d e f)) (NameList names) =
       Inl (PyExc KeyError (key_error_str lib recognized_names (NameList names)))
   \<and> (present fs ''models''
       \<and> unpickle fs ''models/feature_names.joblib'' = Inr (NameList names)
       \<and> unpickle fs ''models/scaler.joblib'' = Inr scaler
       \<and> unpickle fs ''models/random_forest.joblib'' = Inr model
      \<longrightarrow> predict_nps_with_rf lib fs a b c d e f w =
         (Inl (PyExc KeyError (key_error_str lib recognized_names (NameList names))),
          w\<lparr>trace := trace w @ [PathExists ''models'', JoblibLoad ''models/feature_names.joblib'',
             JoblibLoad ''models/scaler.joblib'', JoblibLoad ''models/random_forest.joblib'']\<rparr>))
   \<and> (present fs ''skynet_model''
       \<and> unpickle fs ''skynet_model/feature_names.joblib'' = Inr (NameList names)
       \<and> unpickle fs ''skynet_model/scaler.joblib'' = Inr scaler
       \<and> unpickle fs ''skynet_model/gradient_boosting.joblib'' = Inr model
      \<longrightarrow> predict_nps_with_skynet lib fs a b c d e f w =
         (Inl (PyExc KeyError (key_error_str lib recognized_names (NameList names))),
          w\<lparr>trace := trace w @ [PathExists ''skynet_model'', JoblibLoad ''skynet_model/feature_names.joblib'',
             JoblibLoad ''skynet_model/scaler.joblib'', JoblibLoad ''skynet_model/gradient_boosting.joblib'']\<rparr>))"
  using getitem_unknown [of n names lib a b c d e f]
    flavor_unknown [of n names fs "''models''" scaler "''random_forest.joblib''" model lib a b c d e f w]
    flavor_unknown [of n names fs "''skynet_model''" scaler "''gradient_boosting.joblib''" model lib a b c d e f w]
  by (simp add: rf_refines skynet_refines)

theorem unknown_feature_name_fails_witness:
  "''severity'' \<in> set [key_preDefectCount, ''severity'']
   \<and> ''severity'' \<notin> set recognized_names
   \<and> present misnamed_fs ''models''
   \<and> unpickle misnamed_fs ''models/feature_names.joblib'' = Inr (NameList [key_preDefectCount, ''severity''])
   \<and> unpickle misnamed_fs ''models/scaler.joblib'' = Inr demo_scaler
   \<and> unpickle misnamed_fs ''models/random_forest.joblib'' = Inr demo_model
   \<and> present misnamed_fs ''skynet_model''
   \<and> unpickle misnamed_fs ''skynet_model/feature_names.joblib'' = Inr (NameList [key_preDefectCount, ''severity''])
   \<and> unpickle misnamed_fs ''skynet_model/scaler.joblib'' = Inr demo_scaler
   \<and> unpickle misnamed_fs ''skynet_model/gradient_boosting.joblib'' = Inr demo_model
   \<and> getitem demo_lib (DataFrame_row (input_data 1 2 3 4 5 6)) (NameList [key_preDefectCount, ''severity'']) =
        Inl (PyExc KeyError ''not in index'')
   \<and> predict_nps_with_rf demo_lib misnamed_fs 1 2 3 4 5 6 demo_world =
        (Inl (PyExc KeyError ''not in index''),
         demo_world\<lparr>trace := [PathExists ''models'', JoblibLoad ''models/feature_names.joblib'',
             JoblibLoad ''models/scaler.joblib'', JoblibLoad ''models/random_forest.joblib'']\<rparr>)
   \<and> predict_nps_with_skynet demo_lib misnamed_fs 1 2 3 4 5 6 demo_world =
        (Inl (PyExc KeyError ''not in index''),
         demo_world\<lparr>trace := [PathExists ''skynet_model'', JoblibLoad ''skynet_model/feature_names.joblib'',
             JoblibLoad ''skynet_model/scaler.joblib'', JoblibLoad ''skynet_model/gradient_boosting.joblib'']\<rparr>)"
proof -
  have n: "''severity'' \<in> set [key_preDefectCount, ''severity'']
      \<and> ''severity'' \<notin> set recognized_names"
    by (simp add: recognized_names_def key_defs)
  have fs: "present misnamed_fs ''models''
   \<and> unpickle misnamed_fs ''models/feature_names.joblib'' = Inr (NameList [key_preDefectCount, ''severity''])
   \<and> unpickle misnamed_fs ''models/scaler.joblib'' = Inr demo_scaler
   \<and> unpickle misnamed_fs ''models/random_forest.joblib'' = Inr demo_model
   \<and> present misnamed_fs ''skynet_model''
   \<and> unpickle misnamed_fs ''skynet_model/feature_names.joblib'' = Inr (NameList [key_preDefectCount, ''severity''])
   \<and> unpickle misnamed_fs ''skynet_model/scaler.joblib'' = Inr demo_scaler
   \<and> unpickle misnamed_fs ''skynet_model/gradient_boosting.joblib'' = Inr demo_model"
    by (simp add: misnamed_fs_def demo_fs_def)
  from n fs
    unknown_feature_name_fails [where n = "''severity''" and names = "[key_preDefectCount, ''severity'']"
      and lib = demo_lib and fs = misnamed_fs and a = 1 and b = 2 and c = 3 and d = 4 and e = 5 and f = 6
      and scaler = demo_scaler and model = demo_model
      and w = demo_world]
  show ?thesis by (simp add: demo_lib_def demo_world_def)
qed




text \<open>
  Claim C5. When its artifact directory exists, that is, when the check of
  \<^verbatim>\<open>os.path.exists\<close> passes, each predictor deserializes the feature
  names, the scaler and the model in this sequence; if one of the three loads fails, it
  ends with the wrapped load error, whose message ends with the text of the cause, and
  reads no later file.
\<close>

theorem artifacts_load_in_sequence: "(present fs ''models'' \<longrightarrow>
     loads_in_sequence fs ''models'' ''random_forest.joblib'' (predict_nps_with_rf lib fs a b c d e f) w)
  \<and> (present fs ''skynet_model'' \<longrightarrow>
     loads_in_sequence fs ''skynet_model'' ''gradient_boosting.joblib'' (predict_nps_with_skynet lib fs a b c d e f) w)"
  by (simp add: rf_refines skynet_refines flavor_loads_in_sequence)

theorem artifacts_load_in_sequence_witness:
  "present protocol_mismatch_fs ''models''
   \<and> unpickle protocol_mismatch_fs ''models/feature_names.joblib'' =
        Inl (PyExc ValueError ''unsupported pickle protocol: 5'')
   \<and> predict_nps_with_rf demo_lib protocol_mismatch_fs 1 2 3 4 5 6 demo_world =
        (Inl (PyExc Exception (load_error_prefix @ ''unsupported pickle protocol: 5'')),
         demo_world\<lparr>trace := [PathExists ''models'', JoblibLoad ''models/feature_names.joblib'']\<rparr>)
   \<and> present rf_corrupt_fs ''models''
   \<and> unpickle rf_corrupt_fs ''models/feature_names.joblib'' = Inr (NameList demo_names)
   \<and> unpickle rf_corrupt_fs ''models/scaler.joblib'' =
        Inl (PyExc (OtherError ''UnpicklingError'') ''invalid load key'')
   \<and> predict_nps_with_rf demo_lib rf_corrupt_fs 1 2 3 4 5 6 demo_world =
        (Inl (PyExc Exception (load_error_prefix @ ''invalid load key'')),
         demo_world\<lparr>trace := [PathExists ''models'', JoblibLoad ''models/feature_names.joblib'',
             JoblibLoad ''models/scaler.joblib'']\<rparr>)
   \<and> present skynet_corrupt_fs ''skynet_model''
   \<and> unpickle skynet_corrupt_fs ''skynet_model/feature_names.joblib'' = Inr (NameList demo_names)
   \<and> unpickle skynet_corrupt_fs ''skynet_model/scaler.joblib'' = Inr demo_scaler
   \<and> unpickle skynet_corrupt_fs ''skynet_model/gradient_boosting.joblib'' =
        Inl (PyExc EOFError ''Ran out of input'')
   \<and> predict_nps_with_skynet demo_lib skynet_corrupt_fs 1 2 3 4 5 6 demo_world =
        (Inl (PyExc Exception (load_error_prefix @ ''Ran out of input'')),
         demo_world\<lparr>trace := [PathExists ''skynet_model'', JoblibLoad ''skynet_model/feature_names.joblib'',
             JoblibLoad ''skynet_model/scaler.joblib'', JoblibLoad ''skynet_model/gradient_boosting.joblib'']\<rparr>)"
  using artifacts_load_in_sequence [where fs = protocol_mismatch_fs and lib = demo_lib
      and a = 1 and b = 2 and c = 3 and d = 4 and e = 5 and f = 6 and w = demo_world]
    artifacts_load_in_sequence [where fs = rf_corrupt_fs and lib = demo_lib
      and a = 1 and b = 2 and c = 3 and d = 4 and e = 5 and f = 6 and w = demo_world]
    artifacts_load_in_sequence [where fs = skynet_corrupt_fs and lib = demo_lib
      and a = 1 and b = 2 and c = 3 and d = 4 and e = 5 and f = 6 and w = demo_world]
  by (simp add: loads_in_sequence_def Let_def wrapped_load_error_def protocol_mismatch_fs_def
      rf_corrupt_fs_def skynet_corrupt_fs_def demo_fs_def demo_world_def)

text \<open>
  Claim C6. On the console lines 1, 2, 3, 4, 5, 6, which \<^verbatim>\<open>float\<close> reads as the reals
  1 to 6, \<^verbatim>\<open>main\<close> calls the random-forest predictor with these six values in the
  order of its parameters, from the world in which the banner and the six prompts have
  been shown; when the predictor returns \<open>y\<close>, \<^verbatim>\<open>main\<close> prints the rule, the result
  line with \<open>y\<close> formatted by \<^verbatim>\<open>.2f\<close>, and the rule, and returns normally.
\<close>

theorem main_predicts_parsed_inputs:
  "stdin w = ''1'' # ''2'' # ''3'' # ''4'' # ''5'' # ''6'' # rest
   \<and> float_str lib ''1'' = Inr 1 \<and> float_str lib ''2'' = Inr 2 \<and> float_str lib ''3'' = Inr 3
   \<and> float_str lib ''4'' = Inr 4 \<and> float_str lib ''5'' = Inr 5 \<and> float_str lib ''6'' = Inr 6
   \<and> predict_nps_with_rf lib fs 1 2 3 4 5 6 (prompted w rest) = (Inr y, w')
   \<and> format_2f lib y = Inr shown
   \<longrightarrow> main (lib :: real pylib) fs w =
        (Inr (), w'\<lparr>trace := trace w' @ [Print (CHR 0x0A # replicate 50 (CHR ''='')),
           Print (result_prefix @ shown), Print (replicate 50 (CHR ''=''))]\<rparr>)"
proof (intro impI, elim conjE)
  assume a: "stdin w = ''1'' # ''2'' # ''3'' # ''4'' # ''5'' # ''6'' # rest"
    "float_str lib ''1'' = Inr 1" "float_str lib ''2'' = Inr 2" "float_str lib ''3'' = Inr 3"
    "float_str lib ''4'' = Inr 4" "float_str lib ''5'' = Inr 5" "float_str lib ''6'' = Inr 6"
  and p: "predict_nps_with_rf lib fs 1 2 3 4 5 6 (prompted w rest) = (Inr y, w')"
  and f: "format_2f lib y = Inr shown"
  show "main lib fs w =
        (Inr (), w'\<lparr>trace := trace w' @ [Print (CHR 0x0A # replicate 50 (CHR ''='')),
           Print (result_prefix @ shown), Print (replicate 50 (CHR ''=''))]\<rparr>)"
    by (simp add: main_result main_parsed [OF a] io_bind_def p show_result_result f)
qed

theorem main_predicts_parsed_inputs_witness:
  "stdin demo_world = ''1'' # ''2'' # ''3'' # ''4'' # ''5'' # ''6'' # []
   \<and> float_str demo_lib ''1'' = Inr 1 \<and> float_str demo_lib ''2'' = Inr 2
   \<and> float_str demo_lib ''3'' = Inr 3 \<and> float_str demo_lib ''4'' = Inr 4
   \<and> float_str demo_lib ''5'' = Inr 5 \<and> float_str demo_lib ''6'' = Inr 6
   \<and> predict_nps_with_rf demo_lib demo_fs 1 2 3 4 5 6 (prompted demo_world []) =
        (Inr (352614 / 100),
         (prompted demo_world [])\<lparr>trace := trace (prompted demo_world []) @
            [PathExists ''models'', JoblibLoad ''models/feature_names.joblib'',
             JoblibLoad ''models/scaler.joblib'', JoblibLoad ''models/random_forest.joblib'',
             Transform, Predict]\<rparr>)
   \<and> format_2f demo_lib (352614 / 100) = Inr ''3526.14''
   \<and> main demo_lib demo_fs demo_world =
        (Inr (),
         (prompted demo_world [])\<lparr>trace := trace (prompted demo_world []) @
            [PathExists ''models'', JoblibLoad ''models/feature_names.joblib'',
             JoblibLoad ''models/scaler.joblib'', JoblibLoad ''models/random_forest.joblib'',
             Transform, Predict,
             Print (CHR 0x0A # replicate 50 (CHR ''='')), Print (result_prefix @ ''3526.14''),
             Print (replicate 50 (CHR ''=''))]\<rparr>)"
proof -
  have inputs: "stdin demo_world = ''1'' # ''2'' # ''3'' # ''4'' # ''5'' # ''6'' # []
   \<and> float_str demo_lib ''1'' = Inr 1 \<and> float_str demo_lib ''2'' = Inr 2
   \<and> float_str demo_lib ''3'' = Inr 3 \<and> float_str demo_lib ''4'' = Inr 4
   \<and> float_str demo_lib ''5'' = Inr 5 \<and> float_str demo_lib ''6'' = Inr 6"
    by (simp add: demo_world_def demo_lib_def demo_float_str_def)
  have run: "predict_nps_with_rf demo_lib demo_fs 1 2 3 4 5 6 (prompted demo_world []) =
        (Inr (352614 / 100),
         (prompted demo_world [])\<lparr>trace := trace (prompted demo_world []) @
            [PathExists ''models'', JoblibLoad ''models/feature_names.joblib'',
             JoblibLoad ''models/scaler.joblib'', JoblibLoad ''models/random_forest.joblib'',
             Transform, Predict]\<rparr>)"
    by (simp add: predict_nps_with_rf_def io_defs DataFrame_row_def input_data_def getitem.simps
        key_defs demo_lib_def demo_fs_def demo_names_def demo_transform_def demo_predict_def
        demo_scaler_def demo_model_def)
  have shown: "format_2f demo_lib (352614 / 100) = Inr ''3526.14''"
    using demo_format_example by (simp add: demo_lib_def)
  from inputs run shown
    main_predicts_parsed_inputs [where w = demo_world and rest = "[]" and lib = demo_lib
      and fs = demo_fs and y = "352614 / 100" and shown = "''3526.14''"
      and w' = "(prompted demo_world [])\<lparr>trace := trace (prompted demo_world []) @
            [PathExists ''models'', JoblibLoad ''models/feature_names.joblib'',
             JoblibLoad ''models/scaler.joblib'', JoblibLoad ''models/random_forest.joblib'',
             Transform, Predict]\<rparr>"]
  show ?thesis by simp
qed

text \<open>
  Claim C7. When one of the six console lines that the session reads cannot be parsed
  as a number, \<^verbatim>\<open>main\<close> stops at the first such line: it has shown the prompts up to
  that line, prints the invalid-number message and returns. The trace holds no check of
  a directory, no load, no \<^verbatim>\<open>transform\<close> and no \<^verbatim>\<open>predict\<close>.
\<close>

theorem unparsable_input_aborts:
  "i < 6 \<and> i < length (stdin w) \<and> float_str lib (stdin w ! i) = Inl m \<longrightarrow>
     main lib fs w =
        (Inr (), w\<lparr>stdin := drop (Suc (first_unparsable lib (stdin w))) (stdin w),
                   trace := trace w @ [Print (replicate 50 (CHR ''='')), Print banner_title,
                      Print (replicate 50 (CHR ''='')), Print ask_for_inputs]
                    @ map Input (take (Suc (first_unparsable lib (stdin w))) prompts)
                    @ [Print invalid_number_message]\<rparr>)"
proof (intro impI, elim conjE)
  assume i: "i < 6" "i < length (stdin w)" and bad: "float_str lib (stdin w ! i) = Inl m"
  let ?P = "\<lambda>x. \<not> isl (float_str lib x)"
  define j where "j = first_unparsable lib (stdin w)"
  have j: "j = length (takeWhile ?P (stdin w))" by (simp add: j_def first_unparsable_def)
  have j_le: "j \<le> i"
  proof (rule ccontr)
    assume "\<not> j \<le> i"
    then have lt: "i < length (takeWhile ?P (stdin w))" using j by simp
    then have "takeWhile ?P (stdin w) ! i \<in> set (takeWhile ?P (stdin w))" by simp
    then have "?P (takeWhile ?P (stdin w) ! i)" by (rule set_takeWhileD [THEN conjunct2])
    moreover have "takeWhile ?P (stdin w) ! i = stdin w ! i" using lt by (rule takeWhile_nth)
    ultimately show False using bad by simp
  qed
  have jlen: "j < length (stdin w)" using j_le i by simp
  then have "\<not> ?P (stdin w ! j)" unfolding j by (rule nth_length_takeWhile)
  then obtain m' where m': "float_str lib (stdin w ! j) = Inl m'"
    by (cases "float_str lib (stdin w ! j)") auto
  have split: "stdin w = take j (stdin w) @ stdin w ! j # drop (Suc j) (stdin w)"
    using jlen by (rule id_take_nth_drop)
  have tk: "take j (stdin w) = takeWhile ?P (stdin w)"
    unfolding j by (rule takeWhile_eq_take [symmetric])
  have ok: "\<forall>x \<in> set (take j (stdin w)). \<exists>v. float_str lib x = Inr v"
  proof
    fix x assume "x \<in> set (take j (stdin w))"
    then have "?P x" unfolding tk by (rule set_takeWhileD [THEN conjunct2])
    then show "\<exists>v. float_str lib x = Inr v"
      by (cases "float_str lib x") auto
  qed
  have "stdin (after_banner w) = take j (stdin w) @ stdin w ! j # drop (Suc j) (stdin w)"
    using split by (simp add: after_banner_def)
  moreover have "length (take j (stdin w)) < 6" using j_le i jlen by simp
  ultimately have "main_try_body lib fs (after_banner w) =
     (Inl (PyExc ValueError m'),
      (after_banner w)\<lparr>stdin := drop (Suc j) (stdin w),
         trace := trace (after_banner w) @ Print ask_for_inputs # map Input (take (Suc (length (take j (stdin w)))) prompts)\<rparr>)"
    using ok m' by (rule first_bad_input)
  moreover have "length (take j (stdin w)) = j" using jlen by simp
  ultimately have "main lib fs w =
        (Inr (), w\<lparr>stdin := drop (Suc j) (stdin w),
                   trace := trace w @ [Print (replicate 50 (CHR ''='')), Print banner_title,
                      Print (replicate 50 (CHR ''='')), Print ask_for_inputs]
                    @ map Input (take (Suc j) prompts) @ [Print invalid_number_message]\<rparr>)"
    by (simp add: main_result after_banner_def handler_message_def)
  then show "main lib fs w =
        (Inr (), w\<lparr>stdin := drop (Suc (first_unparsable lib (stdin w))) (stdin w),
                   trace := trace w @ [Print (replicate 50 (CHR ''='')), Print banner_title,
                      Print (replicate 50 (CHR ''='')), Print ask_for_inputs]
                    @ map Input (take (Suc (first_unparsable lib (stdin w))) prompts)
                    @ [Print invalid_number_message]\<rparr>)"
    unfolding j_def .
qed

theorem unparsable_input_aborts_witness:
  "(1::nat) < 6 \<and> 1 < length [''1'', ''abc'', ''3'']
   \<and> float_str demo_lib ([''1'', ''abc'', ''3''] ! 1) = Inl ''could not convert string to float: abc''
   \<and> main demo_lib demo_fs \<lparr>stdin = [''1'', ''abc'', ''3''], trace = []\<rparr> =
        (Inr (), \<lparr>stdin = [''3''],
           trace = [Print (replicate 50 (CHR ''='')), Print banner_title,
                    Print (replicate 50 (CHR ''='')), Print ask_for_inputs,
                    Input (key_preDefectCount @ '': ''), Input (key_preClosedDefectCount @ '': ''),
                    Print invalid_number_message]\<rparr>)"
proof -
  have bad: "float_str demo_lib ([''1'', ''abc'', ''3''] ! 1) = Inl ''could not convert string to float: abc''"
    by (simp add: demo_lib_def demo_float_str_def)
  have first: "first_unparsable demo_lib [''1'', ''abc'', ''3''] = 1"
    by (simp add: first_unparsable_def demo_lib_def demo_float_str_def)
  from bad first
    unparsable_input_aborts [where i = 1 and w = "\<lparr>stdin = [''1'', ''abc'', ''3''], trace = []\<rparr>"
      and lib = demo_lib and fs = demo_fs and m = "''could not convert string to float: abc''"]
  show ?thesis by (simp add: prompts_def recognized_names_def)
qed

text \<open>
  Claim C8. \<^verbatim>\<open>main\<close> returns normally on every console, file system and library.
  Whenever the body of its \<^verbatim>\<open>try\<close> ends with an exception, and in particular
  whenever the predictor raises one after six parsed inputs, \<^verbatim>\<open>main\<close> prints the
  message of its handler for that exception and returns.
\<close>

theorem main_returns_normally:
  "fst (main lib fs w) = Inr ()
   \<and> (main_try_body lib fs (after_banner w) = (Inl err, w') \<longrightarrow>
        main lib fs w = (Inr (), w'\<lparr>trace := trace w' @ [Print (handler_message err)]\<rparr>))
   \<and> (stdin w = xa # xb # xc # xd # xe # xf # rest
       \<and> float_str lib xa = Inr va \<and> float_str lib xb = Inr vb \<and> float_str lib xc = Inr vc
       \<and> float_str lib xd = Inr vd \<and> float_str lib xe = Inr ve \<and> float_str lib xf = Inr vf
       \<and> predict_nps_with_rf lib fs va vb vc vd ve vf (prompted w rest) = (Inl err, w')
      \<longrightarrow> main lib fs w = (Inr (), w'\<lparr>trace := trace w' @ [Print (handler_message err)]\<rparr>))"
proof (intro conjI impI)
  show "fst (main lib fs w) = Inr ()"
    by (simp add: main_result split: prod.splits sum.splits)
  show "main lib fs w = (Inr (), w'\<lparr>trace := trace w' @ [Print (handler_message err)]\<rparr>)"
    if "main_try_body lib fs (after_banner w) = (Inl err, w')"
    using that by (simp add: main_result)
  show "main lib fs w = (Inr (), w'\<lparr>trace := trace w' @ [Print (handler_message err)]\<rparr>)"
    if "stdin w = xa # xb # xc # xd # xe # xf # rest
       \<and> float_str lib xa = Inr va \<and> float_str lib xb = Inr vb \<and> float_str lib xc = Inr vc
       \<and> float_str lib xd = Inr vd \<and> float_str lib xe = Inr ve \<and> float_str lib xf = Inr vf
       \<and> predict_nps_with_rf lib fs va vb vc vd ve vf (prompted w rest) = (Inl err, w')"
    using that by (simp add: main_result main_parsed [of w xa xb xc xd xe xf rest lib va vb vc vd ve vf] io_bind_def)
qed

theorem main_returns_normally_witness:
  "stdin demo_world = ''1'' # ''2'' # ''3'' # ''4'' # ''5'' # ''6'' # []
   \<and> float_str demo_lib ''1'' = Inr 1 \<and> float_str demo_lib ''2'' = Inr 2
   \<and> float_str demo_lib ''3'' = Inr 3 \<and> float_str demo_lib ''4'' = Inr 4
   \<and> float_str demo_lib ''5'' = Inr 5 \<and> float_str demo_lib ''6'' = Inr 6
   \<and> predict_nps_with_rf demo_lib empty_fs 1 2 3 4 5 6 (prompted demo_world []) =
        (Inl (PyExc FileNotFoundError (not_found_head @ ''models'' @ not_found_tail)),
         (prompted demo_world [])\<lparr>trace := trace (prompted demo_world []) @ [PathExists ''models'']\<rparr>)
   \<and> main_try_body demo_lib empty_fs (after_banner demo_world) =
        (Inl (PyExc FileNotFoundError (not_found_head @ ''models'' @ not_found_tail)),
         (prompted demo_world [])\<lparr>trace := trace (prompted demo_world []) @ [PathExists ''models'']\<rparr>)
   \<and> fst (main demo_lib empty_fs demo_world) = Inr ()
   \<and> main demo_lib empty_fs demo_world =
        (Inr (),
         (prompted demo_world [])\<lparr>trace := trace (prompted demo_world []) @
            [PathExists ''models'',
             Print (failure_prefix @ not_found_head @ ''models'' @ not_found_tail)]\<rparr>)"
proof -
  have inputs: "stdin demo_world = ''1'' # ''2'' # ''3'' # ''4'' # ''5'' # ''6'' # []
   \<and> float_str demo_lib ''1'' = Inr 1 \<and> float_str demo_lib ''2'' = Inr 2
   \<and> float_str demo_lib ''3'' = Inr 3 \<and> float_str demo_lib ''4'' = Inr 4
   \<and> float_str demo_lib ''5'' = Inr 5 \<and> float_str demo_lib ''6'' = Inr 6"
    by (simp add: demo_world_def demo_lib_def demo_float_str_def)
  have run: "predict_nps_with_rf demo_lib empty_fs 1 2 3 4 5 6 (prompted demo_world []) =
        (Inl (PyExc FileNotFoundError (not_found_head @ ''models'' @ not_found_tail)),
         (prompted demo_world [])\<lparr>trace := trace (prompted demo_world []) @ [PathExists ''models'']\<rparr>)"
    by (simp add: predict_nps_with_rf_def io_defs empty_fs_def)
  have body: "main_try_body demo_lib empty_fs (after_banner demo_world) =
        (Inl (PyExc FileNotFoundError (not_found_head @ ''models'' @ not_found_tail)),
         (prompted demo_world [])\<lparr>trace := trace (prompted demo_world []) @ [PathExists ''models'']\<rparr>)"
    using inputs run
    by (simp add: main_parsed [of demo_world "''1''" "''2''" "''3''" "''4''" "''5''" "''6''" "[]" demo_lib 1 2 3 4 5 6 empty_fs] io_bind_def)
  from inputs run body
    main_returns_normally [where lib = demo_lib and fs = empty_fs and w = demo_world
      and err = "PyExc FileNotFoundError (not_found_head @ ''models'' @ not_found_tail)"
      and w' = "(prompted demo_world [])\<lparr>trace := trace (prompted demo_world []) @ [PathExists ''models'']\<rparr>"
      and xa = "''1''" and xb = "''2''" and xc = "''3''" and xd = "''4''" and xe = "''5''" and xf = "''6''"
      and rest = "[]" and va = 1 and vb = 2 and vc = 3 and vd = 4 and ve = 5 and vf = 6]
  show ?thesis by (simp add: handler_message_def)
qed

text \<open>
  Claim C9. Both predictors are the one predictor of the specification, for the
  directory and model file of their flavor. Hence a predictor returns the same outcome
  and leaves the same trace on two file systems that agree on its own directory,
  whatever the rest of the file systems holds.
\<close>

theorem flavors_share_logic:
  "predict_nps_with_rf lib fs a b c d e f =
     flavor_predictor lib fs ''models'' ''random_forest.joblib'' a b c d e f
   \<and> predict_nps_with_skynet lib fs a b c d e f =
     flavor_predictor lib fs ''skynet_model'' ''gradient_boosting.joblib'' a b c d e f
   \<and> (same_artifacts ''models'' ''random_forest.joblib'' fs fs' \<longrightarrow>
        predict_nps_with_rf lib fs a b c d e f w = predict_nps_with_rf lib fs' a b c d e f w)
   \<and> (same_artifacts ''skynet_model'' ''gradient_boosting.joblib'' gs gs' \<longrightarrow>
        predict_nps_with_skynet lib gs a b c d e f w = predict_nps_with_skynet lib gs' a b c d e f w)"
  by (simp add: rf_refines skynet_refines flavor_independent)

theorem flavors_share_logic_witness:
  "same_artifacts ''models'' ''random_forest.joblib'' demo_fs skynet_corrupt_fs
   \<and> predict_nps_with_rf demo_lib demo_fs 1 2 3 4 5 6 demo_world =
       predict_nps_with_rf demo_lib skynet_corrupt_fs 1 2 3 4 5 6 demo_world
   \<and> same_artifacts ''skynet_model'' ''gradient_boosting.joblib'' demo_fs rf_corrupt_fs
   \<and> predict_nps_with_skynet demo_lib demo_fs 1 2 3 4 5 6 demo_world =
       predict_nps_with_skynet demo_lib rf_corrupt_fs 1 2 3 4 5 6 demo_world"
proof -
  have 1: "same_artifacts ''models'' ''random_forest.joblib'' demo_fs skynet_corrupt_fs"
    by (simp add: same_artifacts_def skynet_corrupt_fs_def)
  have 2: "same_artifacts ''skynet_model'' ''gradient_boosting.joblib'' demo_fs rf_corrupt_fs"
    by (simp add: same_artifacts_def rf_corrupt_fs_def)
  from 1 2 flavors_share_logic [where fs = demo_fs and fs' = skynet_corrupt_fs
      and gs = demo_fs and gs' = rf_corrupt_fs and lib = demo_lib
      and a = 1 and b = 2 and c = 3 and d = 4 and e = 5 and f = 6 and w = demo_world]
  show ?thesis by blast
qed

text \<open>
  Claim C10, as stated, fails. On this file system the first load of the session raises
  a \<^verbatim>\<open>ValueError\<close>, all six inputs parse, and \<^verbatim>\<open>main\<close> prints the failure message,
  not the invalid-number message.
\<close>

theorem load_ValueError_gets_failure_message:
  "unpickle protocol_mismatch_fs ''models/feature_names.joblib'' =
     Inl (PyExc ValueError ''unsupported pickle protocol: 5'')
   \<and> main demo_lib protocol_mismatch_fs demo_world =
     (Inr (), \<lparr>stdin = [],
        trace = [Print (replicate 50 (CHR ''='')), Print banner_title,
                 Print (replicate 50 (CHR ''='')), Print ask_for_inputs,
                 Input (key_preDefectCount @ '': ''), Input (key_preClosedDefectCount @ '': ''),
                 Input (key_preResolvedDefectCount @ '': ''), Input (key_preTrialDefectCount @ '': ''),
                 Input (key_preClosedTrialDefectCount @ '': ''),
                 Input (key_preResolvedTrialDefectCount @ '': ''),
                 PathExists ''models'', JoblibLoad ''models/feature_names.joblib'',
                 Print (failure_prefix @ load_error_prefix @ ''unsupported pickle protocol: 5'')]\<rparr>)
   \<and> Print invalid_number_message \<notin> set (trace (snd (main demo_lib protocol_mismatch_fs demo_world)))"
proof -
  have run: "main demo_lib protocol_mismatch_fs demo_world =
     (Inr (), \<lparr>stdin = [],
        trace = [Print (replicate 50 (CHR ''='')), Print banner_title,
                 Print (replicate 50 (CHR ''='')), Print ask_for_inputs,
                 Input (key_preDefectCount @ '': ''), Input (key_preClosedDefectCount @ '': ''),
                 Input (key_preResolvedDefectCount @ '': ''), Input (key_preTrialDefectCount @ '': ''),
                 Input (key_preClosedTrialDefectCount @ '': ''),
                 Input (key_preResolvedTrialDefectCount @ '': ''),
                 PathExists ''models'', JoblibLoad ''models/feature_names.joblib'',
                 Print (failure_prefix @ load_error_prefix @ ''unsupported pickle protocol: 5'')]\<rparr>)"
    by (simp add: program_defs demo_defs protocol_mismatch_fs_def)
  have quiet: "Print invalid_number_message \<notin> set (trace (snd (main demo_lib protocol_mismatch_fs demo_world)))"
    unfolding run using rule_not_invalid banner_not_invalid
    by (simp add: failure_not_invalid, simp add: ask_for_inputs_def invalid_number_message_def)
  show ?thesis using run quiet by (simp add: protocol_mismatch_fs_def)
qed

text \<open>
  Claim C10, as amended. \<^verbatim>\<open>main\<close> prints the invalid-number message exactly when
  the body of its \<^verbatim>\<open>try\<close> ends with a \<^verbatim>\<open>ValueError\<close>. A \<^verbatim>\<open>ValueError\<close> that the
  scaler's \<^verbatim>\<open>transform\<close> raises after six parsed inputs is reported with the
  invalid-number message. A \<^verbatim>\<open>ValueError\<close> that \<^verbatim>\<open>joblib.load\<close> raises is wrapped by
  the predictor into a plain \<^verbatim>\<open>Exception\<close> and is reported with the failure message.
\<close>

theorem invalid_message_iff_ValueError_reaches_main:
  "(Print invalid_number_message \<in> set (drop (length (trace w)) (trace (snd (main lib fs w))))
     \<longleftrightarrow> (\<exists>err w'. main_try_body lib fs (after_banner w) = (Inl err, w') \<and> exc_cls err = ValueError))
  \<and> (stdin w = xa # xb # xc # xd # xe # xf # rest
       \<and> float_str lib xa = Inr va \<and> float_str lib xb = Inr vb \<and> float_str lib xc = Inr vc
       \<and> float_str lib xd = Inr vd \<and> float_str lib xe = Inr ve \<and> float_str lib xf = Inr vf
       \<and> present fs ''models''
       \<and> unpickle fs ''models/feature_names.joblib'' = Inr (NameList names)
       \<and> unpickle fs ''models/scaler.joblib'' = Inr (Estimator cs (Some t) p)
       \<and> unpickle fs ''models/random_forest.joblib'' = Inr model
       \<and> getitem lib (DataFrame_row (input_data va vb vc vd ve vf)) (NameList names) = Inr row
       \<and> t row = Inl (PyExc ValueError msg)
      \<longrightarrow> main lib fs w =
          (Inr (), (prompted w rest)\<lparr>trace := trace (prompted w rest) @
             [PathExists ''models'', JoblibLoad ''models/feature_names.joblib'',
              JoblibLoad ''models/scaler.joblib'', JoblibLoad ''models/random_forest.joblib'',
              Transform, Print invalid_number_message]\<rparr>))
  \<and> (stdin w = xa # xb # xc # xd # xe # xf # rest
       \<and> float_str lib xa = Inr va \<and> float_str lib xb = Inr vb \<and> float_str lib xc = Inr vc
       \<and> float_str lib xd = Inr vd \<and> float_str lib xe = Inr ve \<and> float_str lib xf = Inr vf
       \<and> present fs ''models''
       \<and> unpickle fs ''models/feature_names.joblib'' = Inl (PyExc ValueError msg)
      \<longrightarrow> main lib fs w =
          (Inr (), (prompted w rest)\<lparr>trace := trace (prompted w rest) @
             [PathExists ''models'', JoblibLoad ''models/feature_names.joblib'',
              Print (failure_prefix @ load_error_prefix @ msg)]\<rparr>))"
proof (intro conjI impI)
  show "Print invalid_number_message \<in> set (drop (length (trace w)) (trace (snd (main lib fs w))))
     \<longleftrightarrow> (\<exists>err w'. main_try_body lib fs (after_banner w) = (Inl err, w') \<and> exc_cls err = ValueError)"
    by (rule invalid_printed_iff)
next
  assume a: "stdin w = xa # xb # xc # xd # xe # xf # rest
       \<and> float_str lib xa = Inr va \<and> float_str lib xb = Inr vb \<and> float_str lib xc = Inr vc
       \<and> float_str lib xd = Inr vd \<and> float_str lib xe = Inr ve \<and> float_str lib xf = Inr vf
       \<and> present fs ''models''
       \<and> unpickle fs ''models/feature_names.joblib'' = Inr (NameList names)
       \<and> unpickle fs ''models/scaler.joblib'' = Inr (Estimator cs (Some t) p)
       \<and> unpickle fs ''models/random_forest.joblib'' = Inr model
       \<and> getitem lib (DataFrame_row (input_data va vb vc vd ve vf)) (NameList names) = Inr row
       \<and> t row = Inl (PyExc ValueError msg)"
  then have body: "main_try_body lib fs (after_banner w) =
     io_bind (predict_nps_with_rf lib fs va vb vc vd ve vf) (show_result lib) (prompted w rest)"
    by (simp add: main_parsed)
  from a have "predict_nps_with_rf lib fs va vb vc vd ve vf (prompted w rest) =
     (Inl (PyExc ValueError msg), (prompted w rest)\<lparr>trace := trace (prompted w rest) @
        [PathExists ''models'', JoblibLoad ''models/feature_names.joblib'',
         JoblibLoad ''models/scaler.joblib'', JoblibLoad ''models/random_forest.joblib'', Transform]\<rparr>)"
    using flavor_transform_ValueError [of fs "''models''" "NameList names" cs t p "''random_forest.joblib''"
        model lib va vb vc vd ve vf row "PyExc ValueError msg" "prompted w rest"]
    by (simp add: rf_refines)
  with body show "main lib fs w =
          (Inr (), (prompted w rest)\<lparr>trace := trace (prompted w rest) @
             [PathExists ''models'', JoblibLoad ''models/feature_names.joblib'',
              JoblibLoad ''models/scaler.joblib'', JoblibLoad ''models/random_forest.joblib'',
              Transform, Print invalid_number_message]\<rparr>)"
    by (simp add: main_result io_bind_def handler_message_def)
next
  assume a: "stdin w = xa # xb # xc # xd # xe # xf # rest
       \<and> float_str lib xa = Inr va \<and> float_str lib xb = Inr vb \<and> float_str lib xc = Inr vc
       \<and> float_str lib xd = Inr vd \<and> float_str lib xe = Inr ve \<and> float_str lib xf = Inr vf
       \<and> present fs ''models''
       \<and> unpickle fs ''models/feature_names.joblib'' = Inl (PyExc ValueError msg)"
  then have body: "main_try_body lib fs (after_banner w) =
     io_bind (predict_nps_with_rf lib fs va vb vc vd ve vf) (show_result lib) (prompted w rest)"
    by (simp add: main_parsed)
  from a have "predict_nps_with_rf lib fs va vb vc vd ve vf (prompted w rest) =
     (Inl (PyExc Exception (load_error_prefix @ msg)), (prompted w rest)\<lparr>trace := trace (prompted w rest) @
        [PathExists ''models'', JoblibLoad ''models/feature_names.joblib'']\<rparr>)"
    by (simp add: rf_refines flavor_predictor_def io_bind_def load_artifacts_result wrapped_load_error_def)
  with body show "main lib fs w =
          (Inr (), (prompted w rest)\<lparr>trace := trace (prompted w rest) @
             [PathExists ''models'', JoblibLoad ''models/feature_names.joblib'',
              Print (failure_prefix @ load_error_prefix @ msg)]\<rparr>)"
    by (simp add: main_result io_bind_def handler_message_def)
qed

theorem invalid_message_iff_ValueError_reaches_main_witness:
  "stdin demo_world = ''1'' # ''2'' # ''3'' # ''4'' # ''5'' # ''6'' # []
   \<and> float_str demo_lib ''1'' = Inr 1 \<and> float_str demo_lib ''2'' = Inr 2
   \<and> float_str demo_lib ''3'' = Inr 3 \<and> float_str demo_lib ''4'' = Inr 4
   \<and> float_str demo_lib ''5'' = Inr 5 \<and> float_str demo_lib ''6'' = Inr 6
   \<and> present shape_error_fs ''models''
   \<and> unpickle shape_error_fs ''models/feature_names.joblib'' = Inr (NameList demo_names)
   \<and> unpickle shape_error_fs ''models/scaler.joblib'' = Inr shape_error_scaler
   \<and> unpickle shape_error_fs ''models/random_forest.joblib'' = Inr demo_model
   \<and> getitem demo_lib (DataFrame_row (input_data 1 2 3 4 5 6)) (NameList demo_names) =
        Inr (DataFrame \<lparr>columns = demo_names, rows = [[4, 1, 6, 2, 5, 3]]\<rparr>)
   \<and> shape_error_transform (DataFrame \<lparr>columns = demo_names, rows = [[4, 1, 6, 2, 5, 3]]\<rparr>) =
        Inl (PyExc ValueError ''X has 6 features, but 5 were expected'')
   \<and> main demo_lib shape_error_fs demo_world =
        (Inr (), (prompted demo_world [])\<lparr>trace := trace (prompted demo_world []) @
           [PathExists ''models'', JoblibLoad ''models/feature_names.joblib'',
            JoblibLoad ''models/scaler.joblib'', JoblibLoad ''models/random_forest.joblib'',
            Transform, Print invalid_number_message]\<rparr>)
   \<and> Print invalid_number_message
        \<in> set (drop (length (trace demo_world)) (trace (snd (main demo_lib shape_error_fs demo_world))))
   \<and> present protocol_mismatch_fs ''models''
   \<and> unpickle protocol_mismatch_fs ''models/feature_names.joblib'' =
        Inl (PyExc ValueError ''unsupported pickle protocol: 5'')
   \<and> main demo_lib protocol_mismatch_fs demo_world =
        (Inr (), (prompted demo_world [])\<lparr>trace := trace (prompted demo_world []) @
           [PathExists ''models'', JoblibLoad ''models/feature_names.joblib'',
            Print (failure_prefix @ load_error_prefix @ ''unsupported pickle protocol: 5'')]\<rparr>)"
proof -
  have inputs: "stdin demo_world = ''1'' # ''2'' # ''3'' # ''4'' # ''5'' # ''6'' # []
   \<and> float_str demo_lib ''1'' = Inr 1 \<and> float_str demo_lib ''2'' = Inr 2
   \<and> float_str demo_lib ''3'' = Inr 3 \<and> float_str demo_lib ''4'' = Inr 4
   \<and> float_str demo_lib ''5'' = Inr 5 \<and> float_str demo_lib ''6'' = Inr 6"
    by (simp add: demo_world_def demo_lib_def demo_float_str_def)
  have shape: "present shape_error_fs ''models''
   \<and> unpickle shape_error_fs ''models/feature_names.joblib'' = Inr (NameList demo_names)
   \<and> unpickle shape_error_fs ''models/scaler.joblib'' = Inr shape_error_scaler
   \<and> unpickle shape_error_fs ''models/random_forest.joblib'' = Inr demo_model"
    by (simp add: shape_error_fs_def demo_fs_def)
  have row: "getitem demo_lib (DataFrame_row (input_data 1 2 3 4 5 6)) (NameList demo_names) =
        Inr (DataFrame \<lparr>columns = demo_names, rows = [[4, 1, 6, 2, 5, 3]]\<rparr>)"
    by (simp add: getitem.simps DataFrame_row_def input_data_def demo_names_def key_defs)
  have rejects: "shape_error_transform (DataFrame \<lparr>columns = demo_names, rows = [[4, 1, 6, 2, 5, 3]]\<rparr>) =
        Inl (PyExc ValueError ''X has 6 features, but 5 were expected'')"
    by (simp add: shape_error_transform_def)
  have mismatch: "present protocol_mismatch_fs ''models''
   \<and> unpickle protocol_mismatch_fs ''models/feature_names.joblib'' =
        Inl (PyExc ValueError ''unsupported pickle protocol: 5'')"
    by (simp add: protocol_mismatch_fs_def demo_fs_def)
  have a: "main demo_lib shape_error_fs demo_world =
        (Inr (), (prompted demo_world [])\<lparr>trace := trace (prompted demo_world []) @
           [PathExists ''models'', JoblibLoad ''models/feature_names.joblib'',
            JoblibLoad ''models/scaler.joblib'', JoblibLoad ''models/random_forest.joblib'',
            Transform, Print invalid_number_message]\<rparr>)"
    using inputs shape row rejects
      invalid_message_iff_ValueError_reaches_main [where w = demo_world and lib = demo_lib
        and fs = shape_error_fs and rest = "[]"
        and xa = "''1''" and xb = "''2''" and xc = "''3''" and xd = "''4''" and xe = "''5''" and xf = "''6''"
        and va = 1 and vb = 2 and vc = 3 and vd = 4 and ve = 5 and vf = 6
        and names = demo_names and cs = "''StandardScaler''" and t = shape_error_transform and p = None
        and model = demo_model
        and row = "DataFrame \<lparr>columns = demo_names, rows = [[4, 1, 6, 2, 5, 3]]\<rparr>"
        and msg = "''X has 6 features, but 5 were expected''"]
    by (simp add: shape_error_scaler_def)
  have b: "main demo_lib protocol_mismatch_fs demo_world =
        (Inr (), (prompted demo_world [])\<lparr>trace := trace (prompted demo_world []) @
           [PathExists ''models'', JoblibLoad ''models/feature_names.joblib'',
            Print (failure_prefix @ load_error_prefix @ ''unsupported pickle protocol: 5'')]\<rparr>)"
    using inputs mismatch
      invalid_message_iff_ValueError_reaches_main [where w = demo_world and lib = demo_lib
        and fs = protocol_mismatch_fs and rest = "[]"
        and xa = "''1''" and xb = "''2''" and xc = "''3''" and xd = "''4''" and xe = "''5''" and xf = "''6''"
        and va = 1 and vb = 2 and vc = 3 and vd = 4 and ve = 5 and vf = 6
        and msg = "''unsupported pickle protocol: 5''"]
    by simp
  have c: "Print invalid_number_message
        \<in> set (drop (length (trace demo_world)) (trace (snd (main demo_lib shape_error_fs demo_world))))"
    unfolding a by (simp add: demo_world_def prompted_def)
  from inputs shape row rejects mismatch a b c show ?thesis by simp
qed

end
